theory Spec2Isabelle
  imports Main "HOL-Library.Word"
begin

unbundle bit_operations_syntax

section \<open>The world the three scripts act on\<close>

text \<open>
  The repository holds three Python scripts, \<^verbatim>\<open>scripts/verify_ui.py\<close>,
  \<^verbatim>\<open>verification/verify_analysis_ui.py\<close> and \<^verbatim>\<open>verification/verify_manual_button.py\<close>.
  Each one drives a headless browser through a fixed, loop-free sequence of library calls,
  prints progress lines and leaves files on disk. None of them computes anything: what
  they do is decided by which calls they make, in which order, and by what happens when a
  call raises. The embedding therefore makes three things explicit:
  \<^item> the environment (browser, application under test, file system permissions) as a
    record of oracles that say how each call ends;
  \<^item> the observable state (files on disk, standard output, the log of calls made) as a
    record that every statement takes and returns;
  \<^item> Python's exceptions as the left summand of the result, with \<^verbatim>\<open>try/except/finally\<close>
    and \<^verbatim>\<open>with\<close> as combinators that follow Python's rules.
\<close>

type_synonym byte = "8 word"
type_synonym path = string

subsection \<open>Exceptions\<close>

text \<open>
  \<^verbatim>\<open>except Exception as e\<close> catches the instances of \<^verbatim>\<open>Exception\<close> only; a
  \<^verbatim>\<open>KeyboardInterrupt\<close> or \<^verbatim>\<open>SystemExit\<close> derives from \<^verbatim>\<open>BaseException\<close> alone and
  passes through such a handler. The library's timeout error is an \<^verbatim>\<open>Exception\<close>; it
  carries the bound in milliseconds that expired.
\<close>

datatype exn =
    Exception string
  | TimeoutError nat
  | BaseException string

fun isinstance_Exception :: "exn \<Rightarrow> bool" where
  "isinstance_Exception (Exception m) = True"
| "isinstance_Exception (TimeoutError ms) = True"
| "isinstance_Exception (BaseException m) = False"

text \<open>Python's \<^verbatim>\<open>str(n)\<close> for a natural number: its decimal digits.\<close>

fun dec :: "nat \<Rightarrow> string" where
  "dec n = (if n < 10 then [''0123456789'' ! n] else dec (n div 10) @ [''0123456789'' ! (n mod 10)])"

text \<open>
  Modelled from the spec: the text of the library's timeout error is not in the source; the
  spec only says that it contains \<^verbatim>\<open>Timeout\<close> (Scenario B). \<open>str\<close> is Python's
  \<^verbatim>\<open>str(e)\<close>, which the f-string \<^verbatim>\<open>f"Error: {e}"\<close> applies.
\<close>

fun str :: "exn \<Rightarrow> string" where
  "str (Exception m) = m"
| "str (TimeoutError ms) = ''Timeout '' @ dec ms @ ''ms exceeded.''"
| "str (BaseException m) = m"

subsection \<open>Calls into the library and the operating system\<close>

text \<open>
  A locator is a description of an element; building one talks to nobody. The calls are
  the operations that reach the browser or the file system, with the arguments the
  scripts pass.
\<close>

datatype locator =
    GetByText string
  | Locator string
  | First locator

datatype call =
    SyncPlaywrightEnter
  | SyncPlaywrightExit
  | Launch bool
  | NewContext nat nat
  | NewPage
  | Goto string
  | Screenshot path
  | Click locator
  | IsVisible locator
  | ScrollIntoViewIfNeeded locator
  | SetInputFiles locator path
  | WaitForSelector string "nat option"
  | BrowserClose
  | OpenWB path
  | FileWrite path "byte list"

text \<open>
  The environment. \<open>raises\<close> says whether a call raises and what; \<open>visible\<close> is the
  answer of \<^verbatim>\<open>is_visible()\<close>; \<open>appears\<close> is the number of milliseconds after which an
  element matching a selector is on the page (\<open>None\<close>: never); \<open>render\<close> is the image a
  screenshot to a path holds; \<open>print_raises\<close> says whether printing a line raises and
  what (a closed or broken standard output, a character the output encoding lacks). No
  script makes the same call with the same arguments twice or prints the same line twice,
  so oracles indexed by the call and by the line lose no behaviour of a run.
\<close>

record env =
  raises :: "call \<Rightarrow> exn option"
  visible :: "locator \<Rightarrow> bool"
  appears :: "string \<Rightarrow> nat option"
  render :: "path \<Rightarrow> byte list"
  print_raises :: "string \<Rightarrow> exn option"

text \<open>
  Modelled from the spec: the library's default timeout is not in the source. The spec gives
  30 seconds; \<^verbatim>\<open>wait_for_selector\<close> without a \<^verbatim>\<open>timeout=\<close> argument waits that long.
\<close>

definition default_timeout :: nat where
  "default_timeout = 30000"

fun timeout_of :: "nat option \<Rightarrow> nat" where
  "timeout_of None = default_timeout"
| "timeout_of (Some ms) = ms"

text \<open>
  Modelled from the spec: what \<^verbatim>\<open>wait_for_selector\<close> does is library code. The spec says
  it polls for the element up to the timeout and fails with a timeout error if the element
  is not observed in time.
\<close>

definition wait_outcome :: "env \<Rightarrow> string \<Rightarrow> nat option \<Rightarrow> exn option" where
  "wait_outcome E sel t =
     (case appears E sel of
        None \<Rightarrow> Some (TimeoutError (timeout_of t))
      | Some d \<Rightarrow> if d \<le> timeout_of t then None else Some (TimeoutError (timeout_of t)))"

definition outcome :: "env \<Rightarrow> call \<Rightarrow> exn option" where
  "outcome E c =
     (case raises E c of
        Some e \<Rightarrow> Some e
      | None \<Rightarrow> (case c of WaitForSelector sel t \<Rightarrow> wait_outcome E sel t | _ \<Rightarrow> None))"

subsection \<open>Observable state\<close>

text \<open>
  \<open>files\<close> is the content of the disk, \<open>stdout\<close> the lines printed, \<open>calls\<close> every call
  made (also the ones that raised), \<open>written\<close> the paths of the files created or
  replaced, in the order in which that happened.
\<close>

record world =
  files :: "path \<Rightarrow> byte list option"
  stdout :: "string list"
  calls :: "call list"
  written :: "path list"

type_synonym 'a prog = "world \<Rightarrow> (exn + 'a) \<times> world"

text \<open>
  The effect of a call that returns. A screenshot stores the rendered image at its path;
  \<^verbatim>\<open>open(path, "wb")\<close> creates the file or truncates it; \<^verbatim>\<open>f.write(bs)\<close> appends to
  what the file holds since it was opened. The other calls change the browser only.
\<close>

fun perform :: "env \<Rightarrow> call \<Rightarrow> world \<Rightarrow> world" where
  "perform E (Screenshot p) w =
     w\<lparr>files := (files w)(p \<mapsto> render E p), written := written w @ [p]\<rparr>"
| "perform E (OpenWB p) w =
     w\<lparr>files := (files w)(p \<mapsto> []), written := written w @ [p]\<rparr>"
| "perform E (FileWrite p bs) w =
     w\<lparr>files := (files w)(p \<mapsto> (case files w p of None \<Rightarrow> bs | Some old \<Rightarrow> old @ bs))\<rparr>"
| "perform E c w = w"

definition call :: "env \<Rightarrow> call \<Rightarrow> unit prog" where
  "call E c w =
     (let w' = w\<lparr>calls := calls w @ [c]\<rparr> in
      case outcome E c of
        Some e \<Rightarrow> (Inl e, w')
      | None \<Rightarrow> (Inr (), perform E c w'))"

definition is_visible :: "env \<Rightarrow> locator \<Rightarrow> bool prog" where
  "is_visible E l w =
     (let w' = w\<lparr>calls := calls w @ [IsVisible l]\<rparr> in
      case outcome E (IsVisible l) of
        Some e \<Rightarrow> (Inl e, w')
      | None \<Rightarrow> (Inr (visible E l), w'))"

text \<open>
  \<^verbatim>\<open>print\<close> appends a line to the output, or raises and leaves the output as it was.
\<close>

definition print :: "env \<Rightarrow> string \<Rightarrow> unit prog" where
  "print E s w =
     (case print_raises E s of
        Some e \<Rightarrow> (Inl e, w)
      | None \<Rightarrow> (Inr (), w\<lparr>stdout := stdout w @ [s]\<rparr>))"

subsection \<open>Control flow\<close>

definition bind_prog :: "'a prog \<Rightarrow> ('a \<Rightarrow> 'b prog) \<Rightarrow> 'b prog" where
  "bind_prog m f w =
     (case m w of
        (Inl e, w') \<Rightarrow> (Inl e, w')
      | (Inr x, w') \<Rightarrow> f x w')"

text \<open>A block of statements runs them in order and stops at the first one that raises.\<close>

fun block :: "unit prog list \<Rightarrow> unit prog" where
  "block [] w = (Inr (), w)"
| "block (s # ss) w =
     (case s w of
        (Inl e, w') \<Rightarrow> (Inl e, w')
      | (Inr u, w') \<Rightarrow> block ss w')"

text \<open>
  \<^verbatim>\<open>try: body except Exception as e: handler\<close>. The handler runs when the body raises an
  instance of \<^verbatim>\<open>Exception\<close>; what the handler raises is not caught by this statement.
\<close>

definition try_except :: "unit prog \<Rightarrow> (exn \<Rightarrow> unit prog) \<Rightarrow> unit prog" where
  "try_except body handler w =
     (case body w of
        (Inl e, w') \<Rightarrow> if isinstance_Exception e then handler e w' else (Inl e, w')
      | (Inr u, w') \<Rightarrow> (Inr u, w'))"

text \<open>
  \<^verbatim>\<open>try: body finally: cleanup\<close>. The cleanup runs however the body ends. When the cleanup
  returns, the statement ends as the body did; when the cleanup raises, its exception
  replaces the body's.
\<close>

definition try_finally :: "unit prog \<Rightarrow> unit prog \<Rightarrow> unit prog" where
  "try_finally body cleanup w =
     (case body w of
        (r, w') \<Rightarrow>
          (case cleanup w' of
             (Inl e, w'') \<Rightarrow> (Inl e, w'')
           | (Inr u, w'') \<Rightarrow> (r, w'')))"

text \<open>
  \<^verbatim>\<open>with sync_playwright() as p: body\<close>. Entering starts the driver; leaving stops it, on
  every way out of the body, and does not suppress the body's exception.
\<close>

definition with_sync_playwright :: "env \<Rightarrow> unit prog \<Rightarrow> unit prog" where
  "with_sync_playwright E body =
     block [call E SyncPlaywrightEnter, try_finally body (call E SyncPlaywrightExit)]"

section \<open>The scripts\<close>

subsection \<open>scripts/verify\_ui.py\<close>

definition verify_ui :: "env \<Rightarrow> unit prog" where
  "verify_ui E =
     with_sync_playwright E (block [
       call E (Launch True),
       call E (NewContext 393 852),
       call E NewPage,
       call E (Goto ''http://localhost:3000/''),
       call E (Screenshot ''/home/jules/verification/home_v2.png''),
       print E ''Home screenshot taken'',
       call E (Click (GetByText ''Manual'')),
       call E (Screenshot ''/home/jules/verification/editor_v2.png''),
       print E ''Editor screenshot taken'',
       call E BrowserClose])"

subsection \<open>verification/verify\_manual\_button.py\<close>

definition manual_btn :: locator where
  "manual_btn = First (Locator ''text=Manual'')"

text \<open>Lines 12 to 35: the body of the \<^verbatim>\<open>try\<close>.\<close>

definition verify_manual_button_body :: "env \<Rightarrow> unit prog" where
  \<open>verify_manual_button_body E =
     block [
       print E ''Navigating to home...'',
       call E (Goto ''http://localhost:3000''),
       print E ''Waiting for 'Filament ID'...'',
       call E (WaitForSelector ''text=Filament ID'' None),
       print E ''Checking visibility...'',
       bind_prog (is_visible E manual_btn) (\<lambda>v.
         if v then
           block [
             print E ''Manual button visible.'',
             call E (ScrollIntoViewIfNeeded manual_btn),
             print E ''Taking screenshot...'',
             call E (Screenshot ''verification/manual_button_check.png''),
             print E ''Screenshot saved to verification/manual_button_check.png'']
         else
           print E ''Manual button NOT visible!'')]\<close>

text \<open>Lines 37 to 39: the handler.\<close>

definition verify_manual_button_handler :: "env \<Rightarrow> exn \<Rightarrow> unit prog" where
  "verify_manual_button_handler E e =
     block [
       print E (''Error: '' @ str e),
       call E (Screenshot ''verification/error.png'')]"

text \<open>Lines 11 to 41: the whole \<^verbatim>\<open>try/except/finally\<close> statement.\<close>

definition verify_manual_button_try :: "env \<Rightarrow> unit prog" where
  "verify_manual_button_try E =
     try_finally
       (try_except (verify_manual_button_body E) (verify_manual_button_handler E))
       (call E BrowserClose)"

definition verify_manual_button :: "env \<Rightarrow> unit prog" where
  "verify_manual_button E =
     with_sync_playwright E (block [
       call E (Launch True),
       call E (NewContext 393 852),
       call E NewPage,
       verify_manual_button_try E])"

subsection \<open>verification/verify\_analysis\_ui.py\<close>

definition ascii :: "string \<Rightarrow> byte list" where
  "ascii s = map (\<lambda>c. word_of_nat (of_char c)) s"

text \<open>
  The bytes literal of line 37, piece by piece: printable characters as they stand,
  \<^verbatim>\<open>\r\<close> as 0x0D, \<^verbatim>\<open>\n\<close> as 0x0A, \<^verbatim>\<open>\xNN\<close> as 0xNN.
\<close>

definition dummy_png :: "byte list" where
  "dummy_png =
     [0x89] @ ascii ''PNG'' @ [0x0D, 0x0A, 0x1A, 0x0A,
      0x00, 0x00, 0x00, 0x0D] @ ascii ''IHDR'' @
     [0x00, 0x00, 0x00, 0x01, 0x00, 0x00, 0x00, 0x01, 0x08, 0x06, 0x00, 0x00, 0x00,
      0x1F, 0x15, 0xC4, 0x89,
      0x00, 0x00, 0x00, 0x0A] @ ascii ''IDATx'' @ [0x9C] @ ascii ''c'' @
     [0x00, 0x01, 0x00, 0x00, 0x05, 0x00, 0x01, 0x0D, 0x0A] @ ascii ''-'' @ [0xB4,
      0x00, 0x00, 0x00, 0x00] @ ascii ''IEND'' @ [0xAE] @ ascii ''B`'' @ [0x82]"

definition dummy_path :: path where
  "dummy_path = ''verification/dummy.png''"

definition file_input :: locator where
  \<open>file_input = Locator ''input[type="file"]''\<close>

text \<open>
  Lines 23 to 52: the body of the \<^verbatim>\<open>try\<close>. \<^verbatim>\<open>import os\<close> has no effect here. The
  \<^verbatim>\<open>with open(...) as f\<close> block opens the file for writing and writes the literal; closing
  the file is folded into the write.
\<close>

definition verify_analysis_ui_body :: "env \<Rightarrow> unit prog" where
  "verify_analysis_ui_body E =
     block [
       print E ''Navigating to home...'',
       call E (Goto ''http://localhost:3000''),
       print E ''Uploading dummy image...'',
       call E (OpenWB dummy_path),
       call E (FileWrite dummy_path dummy_png),
       call E (SetInputFiles file_input dummy_path),
       print E ''Waiting for Analysis View...'',
       call E (WaitForSelector ''text=NEURAL SCAN'' (Some 5000)),
       print E ''Taking screenshot...'',
       call E (Screenshot ''verification/analysis_ui_check.png''),
       print E ''Screenshot saved to verification/analysis_ui_check.png'']"

text \<open>Lines 54 to 56: the handler.\<close>

definition verify_analysis_ui_handler :: "env \<Rightarrow> exn \<Rightarrow> unit prog" where
  "verify_analysis_ui_handler E e =
     block [
       print E (''Error: '' @ str e),
       call E (Screenshot ''verification/error_analysis.png'')]"

text \<open>Lines 12 to 58: the whole \<^verbatim>\<open>try/except/finally\<close> statement.\<close>

definition verify_analysis_ui_try :: "env \<Rightarrow> unit prog" where
  "verify_analysis_ui_try E =
     try_finally
       (try_except (verify_analysis_ui_body E) (verify_analysis_ui_handler E))
       (call E BrowserClose)"

definition verify_analysis_ui :: "env \<Rightarrow> unit prog" where
  "verify_analysis_ui E =
     with_sync_playwright E (block [
       call E (Launch True),
       call E (NewContext 393 852),
       call E NewPage,
       verify_analysis_ui_try E])"

subsection \<open>Running a script\<close>

text \<open>
  A script runs as a process of its own: nothing is printed and no call is made before it
  starts; the disk holds whatever it held.
\<close>

definition start :: "(path \<Rightarrow> byte list option) \<Rightarrow> world" where
  "start fs = \<lparr>files = fs, stdout = [], calls = [], written = []\<rparr>"

definition run :: "unit prog \<Rightarrow> (path \<Rightarrow> byte list option) \<Rightarrow> (exn + unit) \<times> world" where
  "run p fs = p (start fs)"

section \<open>Environments used as concrete inputs\<close>

text \<open>
  \<open>env_ok\<close>: every call returns, the button is visible, awaited elements are on the page
  after 200 ms. \<open>env_hidden\<close>: the same, but nothing is visible. \<open>env_down\<close>: the
  application does not answer, so navigation raises. \<open>env_crash\<close>: the page is gone, so
  navigation and every screenshot raise. \<open>env_never\<close>: awaited elements never appear.
  \<open>env_no_input\<close>: the page has no file input, so attaching the file raises.
  \<open>env_pipe\<close>: the reader of the standard output has gone, so every \<^verbatim>\<open>print\<close> raises.
  \<open>env_crash_twice\<close>: as \<open>env_crash\<close>, and closing the browser raises as well.
\<close>

definition env_ok :: env where
  "env_ok = \<lparr>raises = (\<lambda>c. None), visible = (\<lambda>l. True),
             appears = (\<lambda>s. Some 200), render = (\<lambda>p. []),
             print_raises = (\<lambda>s. None)\<rparr>"

definition env_hidden :: env where
  "env_hidden = env_ok\<lparr>visible := (\<lambda>l. False)\<rparr>"

definition env_down :: env where
  "env_down = env_ok\<lparr>raises :=
     (\<lambda>c. case c of Goto u \<Rightarrow> Some (Exception ''net::ERR_CONNECTION_REFUSED'') | _ \<Rightarrow> None)\<rparr>"

definition env_crash :: env where
  "env_crash = env_ok\<lparr>raises :=
     (\<lambda>c. case c of
        Goto u \<Rightarrow> Some (Exception ''Page crashed'')
      | Screenshot p \<Rightarrow> Some (Exception ''Target closed'')
      | _ \<Rightarrow> None)\<rparr>"

definition env_never :: env where
  "env_never = env_ok\<lparr>appears := (\<lambda>s. None)\<rparr>"

definition env_no_input :: env where
  "env_no_input = env_ok\<lparr>raises :=
     (\<lambda>c. case c of SetInputFiles l p \<Rightarrow> Some (Exception ''No element matches'') | _ \<Rightarrow> None)\<rparr>"

definition env_pipe :: env where
  "env_pipe = env_ok\<lparr>print_raises := (\<lambda>s. Some (Exception ''[Errno 32] Broken pipe''))\<rparr>"

definition env_crash_twice :: env where
  "env_crash_twice = env_ok\<lparr>raises :=
     (\<lambda>c. case c of
        Goto u \<Rightarrow> Some (Exception ''Page crashed'')
      | Screenshot p \<Rightarrow> Some (Exception ''Target closed'')
      | BrowserClose \<Rightarrow> Some (Exception ''Browser has been closed'')
      | _ \<Rightarrow> None)\<rparr>"

section \<open>Vocabulary of the statements\<close>

text \<open>\<open>succeed E cs\<close>: each call of \<open>cs\<close> returns in the environment \<open>E\<close>.\<close>

fun succeed :: "env \<Rightarrow> call list \<Rightarrow> bool" where
  "succeed E [] = True"
| "succeed E (c # cs) = (outcome E c = None \<and> succeed E cs)"

text \<open>\<open>printed E ss\<close>: printing each line of \<open>ss\<close> returns in the environment \<open>E\<close>.\<close>

fun printed :: "env \<Rightarrow> string list \<Rightarrow> bool" where
  "printed E [] = True"
| "printed E (s # ss) = (print_raises E s = None \<and> printed E ss)"

text \<open>The selector and timeout arguments of the \<^verbatim>\<open>wait_for_selector\<close> calls of a log.\<close>

fun wait_args :: "call list \<Rightarrow> (string \<times> nat option) list" where
  "wait_args [] = []"
| "wait_args (WaitForSelector s t # cs) = (s, t) # wait_args cs"
| "wait_args (c # cs) = wait_args cs"

text \<open>The calls that open the session, common to the three scripts (lines 5 to 9).\<close>

definition prologue :: "call list" where
  "prologue = [SyncPlaywrightEnter, Launch True, NewContext 393 852, NewPage]"

text \<open>
  The world in which the \<^verbatim>\<open>try\<close> statement of the two scripts under
  \<^verbatim>\<open>verification/\<close> starts, once the four opening calls have returned.
\<close>

definition entered :: "(path \<Rightarrow> byte list option) \<Rightarrow> world" where
  "entered fs = \<lparr>files = fs, stdout = [], calls = prologue, written = []\<rparr>"

text \<open>
  The shape the two scripts under \<^verbatim>\<open>verification/\<close> share: the opening calls, then a
  \<^verbatim>\<open>try\<close> whose handler prints the error and takes a screenshot to \<open>err\<close>, and
  whose \<^verbatim>\<open>finally\<close> closes the browser.
\<close>

definition probe :: "env \<Rightarrow> unit prog \<Rightarrow> path \<Rightarrow> unit prog" where
  "probe E body err =
     with_sync_playwright E (block [
       call E (Launch True),
       call E (NewContext 393 852),
       call E NewPage,
       try_finally
         (try_except body (\<lambda>e. block [print E (''Error: '' @ str e), call E (Screenshot err)]))
         (call E BrowserClose)])"

section \<open>Relations between the worlds before and after a statement\<close>

text \<open>
  \<open>grows S w w'\<close>: the log of \<open>w'\<close> extends the log of \<open>w\<close> by calls of \<open>S\<close>.
  \<open>same_file p w w'\<close>: the file at \<open>p\<close> is the same in both.
  \<open>preserves R prog\<close>: whatever the world and however it ends, \<open>prog\<close> relates the
  world it starts in to the one it leaves.
\<close>

definition grows :: "call set \<Rightarrow> world \<Rightarrow> world \<Rightarrow> bool" where
  "grows S w w' = (\<exists>cs. calls w' = calls w @ cs \<and> set cs \<subseteq> S)"

definition same_file :: "path \<Rightarrow> world \<Rightarrow> world \<Rightarrow> bool" where
  "same_file p w w' = (files w' p = files w p)"

definition preserves :: "(world \<Rightarrow> world \<Rightarrow> bool) \<Rightarrow> 'a prog \<Rightarrow> bool" where
  "preserves R p = (\<forall>w. R w (snd (p w)))"

section \<open>What a minimal valid PNG file is\<close>

text \<open>
  The predicate of claim C8 is not in the source, which only holds the bytes. It is written
  here from the PNG specification (signature, chunk layout, CRC-32, the IHDR fields and their
  legal values, IDAT as a zlib stream of filtered scanlines), RFC 1950 (zlib header and
  Adler-32) and RFC 1951 (deflate). The decoder handles stored blocks and blocks with
  the fixed Huffman codes and rejects blocks with dynamic codes, so it accepts only valid
  files, though not all of them.
\<close>

subsection \<open>Numbers from bytes and bits\<close>

definition be32 :: "byte list \<Rightarrow> nat" where
  "be32 bs = foldl (\<lambda>n x. 256 * n + unat x) 0 bs"

definition bits_of_byte :: "byte \<Rightarrow> bool list" where
  "bits_of_byte x =
     (let n = unat x in
      [odd n, odd (n div 2), odd (n div 4), odd (n div 8),
       odd (n div 16), odd (n div 32), odd (n div 64), odd (n div 128)])"

definition bits_of :: "byte list \<Rightarrow> bool list" where
  "bits_of bs = concat (map bits_of_byte bs)"

definition lsb_val :: "bool list \<Rightarrow> nat" where
  "lsb_val bs = foldr (\<lambda>x n. (if x then 1 else 0) + 2 * n) bs 0"

definition msb_val :: "bool list \<Rightarrow> nat" where
  "msb_val bs = foldl (\<lambda>n x. 2 * n + (if x then 1 else 0)) 0 bs"

subsection \<open>CRC-32 and Adler-32\<close>

definition crc_shift :: "32 word \<Rightarrow> 32 word" where
  "crc_shift c = (if c AND 1 = 1 then drop_bit 1 c XOR 0xEDB88320 else drop_bit 1 c)"

definition crc_byte :: "32 word \<Rightarrow> byte \<Rightarrow> 32 word" where
  "crc_byte c x =
     crc_shift (crc_shift (crc_shift (crc_shift (crc_shift (crc_shift (crc_shift (crc_shift
       (c XOR ucast x))))))))"

definition crc32 :: "byte list \<Rightarrow> 32 word" where
  "crc32 bs = foldl crc_byte 0xFFFFFFFF bs XOR 0xFFFFFFFF"

definition adler_step :: "nat \<times> nat \<Rightarrow> byte \<Rightarrow> nat \<times> nat" where
  "adler_step s x = ((fst s + unat x) mod 65521, (snd s + (fst s + unat x) mod 65521) mod 65521)"

definition adler32 :: "byte list \<Rightarrow> nat" where
  "adler32 bs = (let s = foldl adler_step (1, 0) bs in snd s * 65536 + fst s)"

subsection \<open>Chunks\<close>

record chunk =
  ctype :: "byte list"
  cdata :: "byte list"

text \<open>
  A chunk is a length, a type, that many bytes of data and the CRC-32 of type and data.
  Every chunk takes at least twelve bytes, so the number of bytes is fuel enough.
\<close>

fun chunks :: "nat \<Rightarrow> byte list \<Rightarrow> chunk list option" where
  "chunks fuel [] = Some []"
| "chunks 0 (x # xs) = None"
| "chunks (Suc fuel) (x # xs) =
     (let bs = x # xs; n = be32 (take 4 bs) in
      if 12 + n \<le> length bs \<and>
         be32 (take 4 (drop (8 + n) bs)) = unat (crc32 (take (4 + n) (drop 4 bs)))
      then (case chunks fuel (drop (12 + n) bs) of
              None \<Rightarrow> None
            | Some cs \<Rightarrow> Some (\<lparr>ctype = take 4 (drop 4 bs), cdata = take n (drop 8 bs)\<rparr> # cs))
      else None)"

subsection \<open>The image header\<close>

record ihdr =
  width :: nat
  height :: nat
  bit_depth :: nat
  colour_type :: nat
  compression :: nat
  filter_method :: nat
  interlace :: nat

definition parse_ihdr :: "byte list \<Rightarrow> ihdr option" where
  "parse_ihdr d =
     (if length d = 13 then
        Some \<lparr>width = be32 (take 4 d), height = be32 (take 4 (drop 4 d)),
              bit_depth = unat (d ! 8), colour_type = unat (d ! 9), compression = unat (d ! 10),
              filter_method = unat (d ! 11), interlace = unat (d ! 12)\<rparr>
      else None)"

definition depths :: "nat \<Rightarrow> nat list" where
  "depths ct =
     (if ct = 0 then [1, 2, 4, 8, 16] else if ct = 2 then [8, 16] else if ct = 3 then [1, 2, 4, 8]
      else if ct = 4 then [8, 16] else if ct = 6 then [8, 16] else [])"

definition channels :: "nat \<Rightarrow> nat" where
  "channels ct = (if ct = 2 then 3 else if ct = 4 then 2 else if ct = 6 then 4 else 1)"

definition ihdr_ok :: "ihdr \<Rightarrow> bool" where
  "ihdr_ok h =
     (0 < width h \<and> width h < 2 ^ 31 \<and> 0 < height h \<and> height h < 2 ^ 31 \<and>
      bit_depth h \<in> set (depths (colour_type h)) \<and>
      compression h = 0 \<and> filter_method h = 0 \<and> interlace h \<le> 1)"

definition scanline_bytes :: "ihdr \<Rightarrow> nat" where
  "scanline_bytes h = (width h * (channels (colour_type h) * bit_depth h) + 7) div 8"

text \<open>
  The image data of a file that is not interlaced: one filter type byte (0 to 4) and the
  bytes of the scanline, for each row, and nothing more.
\<close>

fun scanlines_ok :: "nat \<Rightarrow> nat \<Rightarrow> byte list \<Rightarrow> bool" where
  "scanlines_ok 0 n d = (d = [])"
| "scanlines_ok (Suc rows) n d =
     (n + 1 \<le> length d \<and> unat (hd d) \<le> 4 \<and> scanlines_ok rows n (drop (n + 1) d))"

subsection \<open>Deflate\<close>

text \<open>
  The fixed Huffman codes of RFC 1951, section 3.2.6: symbols 256 to 279 have the 7-bit
  codes 0 to 23, the literals 0 to 143 the 8-bit codes 48 to 191, the symbols 280 to 287
  the 8-bit codes 192 to 199, the literals 144 to 255 the 9-bit codes 400 to 511. Codes
  are packed starting with their most significant bit.
\<close>

definition fixed_symbol :: "bool list \<Rightarrow> (nat \<times> bool list) option" where
  "fixed_symbol bs =
     (if length bs < 7 then None
      else if msb_val (take 7 bs) < 24 then Some (256 + msb_val (take 7 bs), drop 7 bs)
      else if length bs < 8 then None
      else if msb_val (take 8 bs) < 192 then Some (msb_val (take 8 bs) - 48, drop 8 bs)
      else if msb_val (take 8 bs) < 200 then Some (280 + (msb_val (take 8 bs) - 192), drop 8 bs)
      else if length bs < 9 then None
      else Some (144 + (msb_val (take 9 bs) - 400), drop 9 bs))"

text \<open>Base value and number of extra bits of the length symbols 257 to 285.\<close>

definition length_table :: "(nat \<times> nat) list" where
  "length_table =
     [(3, 0), (4, 0), (5, 0), (6, 0), (7, 0), (8, 0), (9, 0), (10, 0),
      (11, 1), (13, 1), (15, 1), (17, 1), (19, 2), (23, 2), (27, 2), (31, 2),
      (35, 3), (43, 3), (51, 3), (59, 3), (67, 4), (83, 4), (99, 4), (115, 4),
      (131, 5), (163, 5), (195, 5), (227, 5), (258, 0)]"

text \<open>Base value and number of extra bits of the distance codes 0 to 29.\<close>

definition dist_table :: "(nat \<times> nat) list" where
  "dist_table =
     [(1, 0), (2, 0), (3, 0), (4, 0), (5, 1), (7, 1), (9, 2), (13, 2),
      (17, 3), (25, 3), (33, 4), (49, 4), (65, 5), (97, 5), (129, 6), (193, 6),
      (257, 7), (385, 7), (513, 8), (769, 8), (1025, 9), (1537, 9), (2049, 10), (3073, 10),
      (4097, 11), (6145, 11), (8193, 12), (12289, 12), (16385, 13), (24577, 13)]"

text \<open>Copying \<open>n\<close> bytes that start \<open>dist\<close> bytes back; source and target may overlap.\<close>

fun copy_back :: "nat \<Rightarrow> nat \<Rightarrow> byte list \<Rightarrow> byte list" where
  "copy_back 0 dist out = out"
| "copy_back (Suc n) dist out = copy_back n dist (out @ [out ! (length out - dist)])"

text \<open>
  A length symbol is followed by its extra bits, a 5-bit distance code and the extra bits
  of the distance. The result is the output so far extended by the copy, and the bits left.
\<close>

definition back_reference :: "nat \<Rightarrow> bool list \<Rightarrow> byte list \<Rightarrow> (byte list \<times> bool list) option" where
  "back_reference symb bs out =
     (let lbase = fst (length_table ! (symb - 257)); lextra = snd (length_table ! (symb - 257));
          len = lbase + lsb_val (take lextra bs);
          bs1 = drop lextra bs;
          dcode = msb_val (take 5 bs1);
          dbase = fst (dist_table ! dcode); dextra = snd (dist_table ! dcode);
          bs2 = drop 5 bs1;
          dist = dbase + lsb_val (take dextra bs2)
      in if symb \<le> 285 \<and> lextra + 5 \<le> length bs \<and> dcode \<le> 29 \<and> dextra \<le> length bs2 \<and>
            dist \<le> length out
         then Some (copy_back len dist out, drop dextra bs2)
         else None)"

text \<open>A block with the fixed codes. Every symbol takes at least seven bits.\<close>

fun fixed_block :: "nat \<Rightarrow> bool list \<Rightarrow> byte list \<Rightarrow> (byte list \<times> bool list) option" where
  "fixed_block 0 bs out = None"
| "fixed_block (Suc fuel) bs out =
     (case fixed_symbol bs of
        None \<Rightarrow> None
      | Some (symb, bs1) \<Rightarrow>
          if symb < 256 then fixed_block fuel bs1 (out @ [of_nat symb])
          else if symb = 256 then Some (out, bs1)
          else (case back_reference symb bs1 out of
                  None \<Rightarrow> None
                | Some (out1, bs2) \<Rightarrow> fixed_block fuel bs2 out1))"

text \<open>
  A stored block starts at the next byte boundary: LEN and its complement NLEN in 16 bits
  each, then LEN bytes.
\<close>

fun bytes_of_bits :: "nat \<Rightarrow> bool list \<Rightarrow> byte list" where
  "bytes_of_bits 0 bs = []"
| "bytes_of_bits (Suc n) bs = of_nat (lsb_val (take 8 bs)) # bytes_of_bits n (drop 8 bs)"

definition stored_block :: "bool list \<Rightarrow> byte list \<Rightarrow> (byte list \<times> bool list) option" where
  "stored_block bs out =
     (let al = drop (length bs mod 8) bs; len = lsb_val (take 16 al) in
      if 32 + 8 * len \<le> length al \<and> len + lsb_val (take 16 (drop 16 al)) = 65535
      then Some (out @ bytes_of_bits len (drop 32 al), drop (32 + 8 * len) al)
      else None)"

text \<open>
  A deflate stream is a sequence of blocks, each with a three-bit header: the flag of the
  last block, then the block type (0 stored, 1 fixed codes, 2 dynamic codes).
\<close>

fun inflate :: "nat \<Rightarrow> bool list \<Rightarrow> byte list \<Rightarrow> (byte list \<times> bool list) option" where
  "inflate 0 bs out = None"
| "inflate (Suc fuel) bs out =
     (case bs of
        final # t0 # t1 # rest \<Rightarrow>
          (case (if t1 then None
                 else if t0 then fixed_block (length rest) rest out
                 else stored_block rest out) of
             None \<Rightarrow> None
           | Some (out1, rest1) \<Rightarrow> if final then Some (out1, rest1) else inflate fuel rest1 out1)
      | _ \<Rightarrow> None)"

subsection \<open>Zlib\<close>

text \<open>
  Two header bytes (method 8, window at most 32K, check bits, no preset dictionary), the
  deflate stream padded to a byte boundary, and the Adler-32 of the uncompressed bytes.
\<close>

definition zlib_decompress :: "byte list \<Rightarrow> byte list option" where
  "zlib_decompress z =
     (if 6 \<le> length z \<and> unat (z ! 0) mod 16 = 8 \<and> unat (z ! 0) div 16 \<le> 7 \<and>
         (256 * unat (z ! 0) + unat (z ! 1)) mod 31 = 0 \<and> even (unat (z ! 1) div 32)
      then
        (case inflate (length (bits_of (drop 2 z))) (bits_of (drop 2 z)) [] of
           None \<Rightarrow> None
         | Some (out, rest) \<Rightarrow>
             if length rest div 8 = 4 \<and> be32 (drop (length z - 4) z) = adler32 out
             then Some out else None)
      else None)"

subsection \<open>The file\<close>

definition png_signature :: "byte list" where
  "png_signature = [0x89, 0x50, 0x4E, 0x47, 0x0D, 0x0A, 0x1A, 0x0A]"

text \<open>
  A minimal PNG file: the signature and the three chunks no image can do without, IHDR,
  one IDAT and IEND, with a legal header for an image that needs no palette and is not
  interlaced, and image data that inflate to exactly the scanlines of the image.
\<close>

definition minimal_png :: "byte list \<Rightarrow> ihdr option" where
  "minimal_png f =
     (if take 8 f = png_signature then
        (case chunks (length f) (drop 8 f) of
           Some [c1, c2, c3] \<Rightarrow>
             if ctype c1 = ascii ''IHDR'' \<and> ctype c2 = ascii ''IDAT'' \<and>
                ctype c3 = ascii ''IEND'' \<and> cdata c3 = []
             then
               (case parse_ihdr (cdata c1) of
                  None \<Rightarrow> None
                | Some h \<Rightarrow>
                    if ihdr_ok h \<and> colour_type h \<in> set [0, 2, 4, 6] \<and> interlace h = 0
                    then
                      (case zlib_decompress (cdata c2) of
                         None \<Rightarrow> None
                       | Some d \<Rightarrow>
                           if scanlines_ok (height h) (scanline_bytes h) d then Some h else None)
                    else None)
             else None
         | _ \<Rightarrow> None)
      else None)"


section \<open>Basic facts\<close>

lemma calls_perform [simp]: "calls (perform E c w) = calls w"
  by (cases c) simp_all

lemma stdout_perform [simp]: "stdout (perform E c w) = stdout w"
  by (cases c) simp_all

lemma call_ok: "outcome E c = None \<Longrightarrow> call E c w = (Inr (), perform E c (w\<lparr>calls := calls w @ [c]\<rparr>))"
  by (simp add: call_def)

lemma calls_call [simp]: "calls (snd (call E c w)) = calls w @ [c]"
  by (cases "outcome E c") (simp_all add: call_def)

lemma stdout_call [simp]: "stdout (snd (call E c w)) = stdout w"
  by (cases "outcome E c") (simp_all add: call_def)

lemma fst_call: "fst (call E c w) = (case outcome E c of None \<Rightarrow> Inr () | Some e \<Rightarrow> Inl e)"
  by (cases "outcome E c") (simp_all add: call_def)

lemma snd_try_finally: "snd (try_finally p q w) = snd (q (snd (p w)))"
  by (cases "p w"; cases "q (snd (p w))"; cases "fst (q (snd (p w)))") (auto simp: try_finally_def)

lemma fst_try_finally:
  "fst (try_finally p q w) = (case fst (q (snd (p w))) of Inl e \<Rightarrow> Inl e | Inr u \<Rightarrow> fst (p w))"
  by (cases "p w"; cases "q (snd (p w))"; cases "fst (q (snd (p w)))") (auto simp: try_finally_def)

lemma block_single: "block [p] = p"
proof
  fix w show "block [p] w = p w"
    by (cases "p w"; cases "fst (p w)") auto
qed

lemma preserves_block:
  assumes refl: "\<And>w. R w w"
    and trans: "\<And>a b c. R a b \<Longrightarrow> R b c \<Longrightarrow> R a c"
    and steps: "list_all (preserves R) ss"
  shows "preserves R (block ss)"
  using steps
proof (induction ss)
  case Nil
  show ?case by (simp add: preserves_def refl)
next
  case (Cons s ss)
  have s: "\<And>w. R w (snd (s w))" and rest: "\<And>w. R w (snd (block ss w))"
    using Cons by (simp_all add: preserves_def)
  show ?case
    unfolding preserves_def
  proof
    fix w
    obtain r w' where sw: "s w = (r, w')" by (cases "s w")
    have 1: "R w w'" using s [of w] sw by simp
    show "R w (snd (block (s # ss) w))"
    proof (cases r)
      case (Inl e)
      then show ?thesis using sw 1 by simp
    next
      case (Inr u)
      then show ?thesis using sw trans [OF 1 rest [of w']] by simp
    qed
  qed
qed

lemma preserves_bind:
  assumes trans: "\<And>a b c. R a b \<Longrightarrow> R b c \<Longrightarrow> R a c"
    and m: "preserves R m" and f: "\<And>x. preserves R (f x)"
  shows "preserves R (bind_prog m f)"
  unfolding preserves_def
proof
  fix w
  obtain r w' where mw: "m w = (r, w')" by (cases "m w")
  have 1: "R w w'" using m mw by (auto simp: preserves_def dest: spec [of _ w])
  show "R w (snd (bind_prog m f w))"
  proof (cases r)
    case (Inl e)
    then show ?thesis using mw 1 by (simp add: bind_prog_def)
  next
    case (Inr x)
    have "R w' (snd (f x w'))" using f [of x] by (simp add: preserves_def)
    then show ?thesis using Inr mw trans [OF 1] by (simp add: bind_prog_def)
  qed
qed

lemma preserves_try_except:
  assumes trans: "\<And>a b c. R a b \<Longrightarrow> R b c \<Longrightarrow> R a c"
    and b: "preserves R body" and h: "\<And>e. preserves R (handler e)"
  shows "preserves R (try_except body handler)"
  unfolding preserves_def
proof
  fix w
  obtain r w' where bw: "body w = (r, w')" by (cases "body w")
  have 1: "R w w'" using b bw by (auto simp: preserves_def dest: spec [of _ w])
  show "R w (snd (try_except body handler w))"
  proof (cases r)
    case (Inl e)
    have "R w' (snd (handler e w'))" using h [of e] by (simp add: preserves_def)
    then show ?thesis using Inl bw 1 trans [OF 1] by (simp add: try_except_def)
  next
    case (Inr u)
    then show ?thesis using bw 1 by (simp add: try_except_def)
  qed
qed

lemma preserves_try_finally:
  assumes trans: "\<And>a b c. R a b \<Longrightarrow> R b c \<Longrightarrow> R a c"
    and b: "preserves R body" and c: "preserves R cleanup"
  shows "preserves R (try_finally body cleanup)"
  unfolding preserves_def
proof
  fix w
  have 1: "R w (snd (body w))" using b by (simp add: preserves_def)
  have 2: "R (snd (body w)) (snd (cleanup (snd (body w))))" using c by (simp add: preserves_def)
  show "R w (snd (try_finally body cleanup w))"
    using trans [OF 1 2] by (simp add: snd_try_finally)
qed

subsection \<open>Straight-line execution\<close>

lemma block_call_ok:
  "outcome E c = None \<Longrightarrow> block (call E c # ss) w = block ss (perform E c (w\<lparr>calls := calls w @ [c]\<rparr>))"
  by (simp add: call_def)

lemma block_call_raises:
  "outcome E c = Some e \<Longrightarrow> block (call E c # ss) w = (Inl e, w\<lparr>calls := calls w @ [c]\<rparr>)"
  by (simp add: call_def)

lemma block_print:
  "print_raises E s = None \<Longrightarrow> block (print E s # ss) w = block ss (w\<lparr>stdout := stdout w @ [s]\<rparr>)"
  by (simp add: print_def)

lemma block_print_raises:
  "print_raises E s = Some e \<Longrightarrow> block (print E s # ss) w = (Inl e, w)"
  by (simp add: print_def)

lemma fst_finally_call:
  "fst (try_finally p (call E c) w) = (case outcome E c of Some e \<Rightarrow> Inl e | None \<Rightarrow> fst (p w))"
  by (cases "outcome E c") (simp_all add: fst_try_finally fst_call)

lemma calls_finally_call: "calls (snd (try_finally p (call E c) w)) = calls (snd (p w)) @ [c]"
  by (simp add: snd_try_finally)

lemma stdout_finally_call: "stdout (snd (try_finally p (call E c) w)) = stdout (snd (p w))"
  by (simp add: snd_try_finally)

lemma files_call_other:
  "c \<noteq> Screenshot p \<Longrightarrow> c \<noteq> OpenWB p \<Longrightarrow> (\<And>bs. c \<noteq> FileWrite p bs) \<Longrightarrow>
   files (snd (call E c w)) p = files w p"
  by (cases "outcome E c"; cases c) (auto simp: call_def)

subsection \<open>The shape of the two scripts under verification/\<close>

lemma verify_manual_button_probe:
  "verify_manual_button E = probe E (verify_manual_button_body E) ''verification/error.png''"
proof -
  have "verify_manual_button_handler E =
      (\<lambda>e. block [print E (''Error: '' @ str e), call E (Screenshot ''verification/error.png'')])"
    by (rule ext) (simp add: verify_manual_button_handler_def del: block.simps)
  then show ?thesis
    by (simp add: verify_manual_button_def verify_manual_button_try_def probe_def)
qed

lemma verify_analysis_ui_probe:
  "verify_analysis_ui E = probe E (verify_analysis_ui_body E) ''verification/error_analysis.png''"
proof -
  have "verify_analysis_ui_handler E =
      (\<lambda>e. block [print E (''Error: '' @ str e), call E (Screenshot ''verification/error_analysis.png'')])"
    by (rule ext) (simp add: verify_analysis_ui_handler_def del: block.simps)
  then show ?thesis
    by (simp add: verify_analysis_ui_def verify_analysis_ui_try_def probe_def)
qed

lemma enter:
  assumes "succeed E prologue"
  shows "run (probe E body err) fs =
         try_finally
           (try_finally
              (try_except body (\<lambda>e. block [print E (''Error: '' @ str e), call E (Screenshot err)]))
              (call E BrowserClose))
           (call E SyncPlaywrightExit) (entered fs)"
proof -
  have ok: "outcome E SyncPlaywrightEnter = None" "outcome E (Launch True) = None"
    "outcome E (NewContext 393 852) = None" "outcome E NewPage = None"
    using assms by (simp_all add: prologue_def)
  have 1: "block [call E (Launch True), call E (NewContext 393 852), call E NewPage, T]
             \<lparr>files = fs, stdout = [], calls = [SyncPlaywrightEnter], written = []\<rparr> =
           T \<lparr>files = fs, stdout = [], calls = prologue, written = []\<rparr>" for T
    by (simp add: block_call_ok ok block_single prologue_def del: block.simps)
  show ?thesis
    by (simp add: run_def probe_def with_sync_playwright_def block_call_ok ok block_single
        try_finally_def 1 start_def entered_def del: block.simps)
qed

lemma caught:
  assumes "body w = (Inl e, w1)" and "isinstance_Exception e" and "print_raises E (f e) = None"
  shows "try_except body (\<lambda>e. block [print E (f e), call E c]) w =
           call E c (w1\<lparr>stdout := stdout w1 @ [f e]\<rparr>)"
  using assms by (simp add: try_except_def block_print block_single del: block.simps)

lemma caught_unprinted:
  assumes "body w = (Inl e, w1)" and "isinstance_Exception e" and "print_raises E (f e) = Some x"
  shows "try_except body (\<lambda>e. block [print E (f e), call E c]) w = (Inl x, w1)"
  using assms by (simp add: try_except_def block_print_raises del: block.simps)

lemma probe_caught_calls:
  assumes "succeed E prologue" and "body (entered fs) = (Inl e, w1)" and "isinstance_Exception e"
  shows "calls (snd (run (probe E body err) fs)) =
           calls w1 @
           (case print_raises E (''Error: '' @ str e) of
              None \<Rightarrow> [Screenshot err] | Some x \<Rightarrow> []) @
           [BrowserClose, SyncPlaywrightExit]"
proof (cases "print_raises E (''Error: '' @ str e)")
  case None
  then show ?thesis
    unfolding enter [OF assms(1)]
    by (simp add: calls_finally_call caught [where body = body, OF assms(2,3)])
next
  case (Some x)
  then show ?thesis
    unfolding enter [OF assms(1)]
    by (simp add: calls_finally_call caught_unprinted [where body = body, OF assms(2,3)])
qed

lemma probe_caught_stdout:
  assumes "succeed E prologue" and "body (entered fs) = (Inl e, w1)" and "isinstance_Exception e"
  shows "stdout (snd (run (probe E body err) fs)) =
           (case print_raises E (''Error: '' @ str e) of
              None \<Rightarrow> stdout w1 @ [''Error: '' @ str e] | Some x \<Rightarrow> stdout w1)"
proof (cases "print_raises E (''Error: '' @ str e)")
  case None
  then show ?thesis
    unfolding enter [OF assms(1)]
    by (simp add: stdout_finally_call caught [where body = body, OF assms(2,3)])
next
  case (Some x)
  then show ?thesis
    unfolding enter [OF assms(1)]
    by (simp add: stdout_finally_call caught_unprinted [where body = body, OF assms(2,3)])
qed

lemma probe_caught_result:
  assumes "succeed E prologue" and "body (entered fs) = (Inl e, w1)" and "isinstance_Exception e"
  shows "fst (run (probe E body err) fs) =
           (case outcome E SyncPlaywrightExit of
              Some e3 \<Rightarrow> Inl e3
            | None \<Rightarrow>
               (case outcome E BrowserClose of
                  Some e2 \<Rightarrow> Inl e2
                | None \<Rightarrow>
                   (case print_raises E (''Error: '' @ str e) of
                      Some e0 \<Rightarrow> Inl e0
                    | None \<Rightarrow>
                       (case outcome E (Screenshot err) of
                          Some e1 \<Rightarrow> Inl e1
                        | None \<Rightarrow> Inr ()))))"
proof (cases "print_raises E (''Error: '' @ str e)")
  case None
  then show ?thesis
    unfolding enter [OF assms(1)]
    by (cases "outcome E SyncPlaywrightExit"; cases "outcome E BrowserClose";
        cases "outcome E (Screenshot err)")
       (simp_all add: fst_finally_call caught [where body = body, OF assms(2,3)] fst_call)
next
  case (Some x)
  then show ?thesis
    unfolding enter [OF assms(1)]
    by (cases "outcome E SyncPlaywrightExit"; cases "outcome E BrowserClose")
       (simp_all add: fst_finally_call caught_unprinted [where body = body, OF assms(2,3)])
qed

subsection \<open>Which calls a statement can log\<close>

lemma grows_refl: "grows S w w"
  by (simp add: grows_def)

lemma grows_trans: "grows S w1 w2 \<Longrightarrow> grows S w2 w3 \<Longrightarrow> grows S w1 w3"
  by (auto simp: grows_def)

lemma grows_call: "c \<in> S \<Longrightarrow> preserves (grows S) (call E c)"
  by (simp add: preserves_def grows_def)

lemma grows_print: "preserves (grows S) (print E s)"
  by (simp add: preserves_def grows_def print_def split: option.split)

lemma grows_is_visible: "IsVisible l \<in> S \<Longrightarrow> preserves (grows S) (is_visible E l)"
  by (simp add: preserves_def grows_def is_visible_def Let_def split: option.split)

lemmas grows_block = preserves_block [of "grows S" for S, OF grows_refl grows_trans]
lemmas grows_bind = preserves_bind [of "grows S" for S, OF grows_trans]
lemmas grows_try_except = preserves_try_except [of "grows S" for S, OF grows_trans]
lemmas grows_try_finally = preserves_try_finally [of "grows S" for S, OF grows_trans]
lemmas grows_intros = grows_block grows_bind grows_try_except grows_try_finally
  grows_call grows_print grows_is_visible

lemma verify_manual_button_body_grows:
  "preserves (grows {Goto ''http://localhost:3000'', WaitForSelector ''text=Filament ID'' None,
      IsVisible manual_btn, ScrollIntoViewIfNeeded manual_btn,
      Screenshot ''verification/manual_button_check.png''}) (verify_manual_button_body E)"
  unfolding verify_manual_button_body_def
  by (intro grows_intros; simp add: grows_intros)

lemma verify_analysis_ui_body_grows:
  "preserves (grows {Goto ''http://localhost:3000'', OpenWB dummy_path,
      FileWrite dummy_path dummy_png, SetInputFiles file_input dummy_path,
      WaitForSelector ''text=NEURAL SCAN'' (Some 5000),
      Screenshot ''verification/analysis_ui_check.png''}) (verify_analysis_ui_body E)"
  unfolding verify_analysis_ui_body_def
  by (intro grows_intros; simp add: grows_intros)

lemma probe_grows:
  assumes "preserves (grows S) body" and "S \<subseteq> T"
    and "{SyncPlaywrightEnter, SyncPlaywrightExit, Launch True, NewContext 393 852, NewPage,
          Screenshot err, BrowserClose} \<subseteq> T"
  shows "preserves (grows T) (probe E body err)"
proof -
  have "grows T w w'" if "grows S w w'" for w w'
    using that assms(2) by (auto simp: grows_def)
  then have "preserves (grows T) body"
    using assms(1) by (simp add: preserves_def)
  then show ?thesis
    unfolding probe_def with_sync_playwright_def using assms(3)
    by (intro grows_intros; simp add: grows_intros)
qed

lemma probe_close_once:
  assumes ok: "succeed E prologue" and body: "preserves (grows S) body"
    and no: "BrowserClose \<notin> S"
  shows "\<exists>cs. calls (snd (run (probe E body err) fs)) =
             prologue @ cs @ [BrowserClose, SyncPlaywrightExit] \<and> BrowserClose \<notin> set cs"
proof -
  let ?h = "\<lambda>e. block [print E (''Error: '' @ str e), call E (Screenshot err)]"
  have "preserves (grows (insert (Screenshot err) S)) (try_except body ?h)"
  proof (rule grows_try_except)
    have "grows (insert (Screenshot err) S) w w'" if "grows S w w'" for w w'
      using that by (auto simp: grows_def)
    then show "preserves (grows (insert (Screenshot err) S)) body"
      using body by (simp add: preserves_def)
    show "preserves (grows (insert (Screenshot err) S)) (?h e)" for e
      by (intro grows_intros; simp add: grows_intros)
  qed
  then obtain cs where cs: "calls (snd (try_except body ?h (entered fs))) = prologue @ cs"
      "set cs \<subseteq> insert (Screenshot err) S"
    by (auto simp: preserves_def grows_def entered_def dest: spec [of _ "entered fs"])
  have "calls (snd (run (probe E body err) fs)) = prologue @ cs @ [BrowserClose, SyncPlaywrightExit]"
    unfolding enter [OF ok] using cs(1) by (simp add: calls_finally_call)
  moreover have "BrowserClose \<notin> set cs"
    using cs(2) no by auto
  ultimately show ?thesis by blast
qed


section \<open>Facts for running a script on given outcomes\<close>

lemmas exec = with_sync_playwright_def call_def print_def is_visible_def bind_prog_def
  try_except_def try_finally_def run_def start_def Let_def prologue_def entered_def
lemmas envs = outcome_def wait_outcome_def default_timeout_def
  env_ok_def env_hidden_def env_down_def env_crash_def env_never_def env_no_input_def
  env_pipe_def env_crash_twice_def

section \<open>Scenario A\<close>

text \<open>
  Claim C6. \<^verbatim>\<open>verify_ui\<close> opens a context with the viewport 393 by 852 and then, in this
  order, navigates to the base URL, takes the home screenshot, clicks the element with the
  text "Manual" and takes the editor screenshot. When every call
  and every \<^verbatim>\<open>print\<close> returns, the run ends normally, and the two screenshot files are
  the files written, in that order.
\<close>

theorem verify_ui_scenario_A:
  assumes "succeed E (prologue @
     [Goto ''http://localhost:3000/'', Screenshot ''/home/jules/verification/home_v2.png'',
      Click (GetByText ''Manual''), Screenshot ''/home/jules/verification/editor_v2.png'',
      BrowserClose, SyncPlaywrightExit])"
    and "printed E [''Home screenshot taken'', ''Editor screenshot taken'']"
  shows "run (verify_ui E) fs =
    (Inr (),
     \<lparr>files = fs(''/home/jules/verification/home_v2.png'' \<mapsto>
                    render E ''/home/jules/verification/home_v2.png'',
                  ''/home/jules/verification/editor_v2.png'' \<mapsto>
                    render E ''/home/jules/verification/editor_v2.png''),
      stdout = [''Home screenshot taken'', ''Editor screenshot taken''],
      calls = [SyncPlaywrightEnter, Launch True, NewContext 393 852, NewPage,
        Goto ''http://localhost:3000/'', Screenshot ''/home/jules/verification/home_v2.png'',
        Click (GetByText ''Manual''), Screenshot ''/home/jules/verification/editor_v2.png'',
        BrowserClose, SyncPlaywrightExit],
      written = [''/home/jules/verification/home_v2.png'',
        ''/home/jules/verification/editor_v2.png'']\<rparr>)"
  using assms by (simp add: verify_ui_def exec)

theorem verify_ui_scenario_A_witness:
  "succeed env_ok (prologue @
     [Goto ''http://localhost:3000/'', Screenshot ''/home/jules/verification/home_v2.png'',
      Click (GetByText ''Manual''), Screenshot ''/home/jules/verification/editor_v2.png'',
      BrowserClose, SyncPlaywrightExit]) \<and>
   printed env_ok [''Home screenshot taken'', ''Editor screenshot taken''] \<and>
   fst (run (verify_ui env_ok) Map.empty) = Inr () \<and>
   written (snd (run (verify_ui env_ok) Map.empty)) =
     [''/home/jules/verification/home_v2.png'', ''/home/jules/verification/editor_v2.png'']"
proof -
  have ok: "succeed env_ok (prologue @
     [Goto ''http://localhost:3000/'', Screenshot ''/home/jules/verification/home_v2.png'',
      Click (GetByText ''Manual''), Screenshot ''/home/jules/verification/editor_v2.png'',
      BrowserClose, SyncPlaywrightExit])"
    by (simp add: prologue_def envs)
  have pr: "printed env_ok [''Home screenshot taken'', ''Editor screenshot taken'']"
    by (simp add: envs)
  show ?thesis
    using ok pr verify_ui_scenario_A [OF ok pr, of Map.empty] by simp
qed

section \<open>The invisible button\<close>

text \<open>
  Claim C3. In \<^verbatim>\<open>verify_manual_button\<close>, when the calls up to the check and every
  \<^verbatim>\<open>print\<close> return and \<^verbatim>\<open>is_visible()\<close> answers false, the run prints
  "Manual button NOT visible!" and does nothing more: no screenshot call is made, no file
  is written, nothing is raised, and the run ends with the same result as a run that found
  the button, the only normal result there is.
\<close>

theorem manual_button_not_visible:
  assumes "succeed E (prologue @
     [Goto ''http://localhost:3000'', WaitForSelector ''text=Filament ID'' None,
      IsVisible manual_btn, BrowserClose, SyncPlaywrightExit])"
    and \<open>printed E [''Navigating to home...'', ''Waiting for 'Filament ID'...'',
        ''Checking visibility...'', ''Manual button NOT visible!'']\<close>
    and "\<not> visible E manual_btn"
  shows \<open>run (verify_manual_button E) fs =
    (Inr (),
     \<lparr>files = fs,
      stdout = [''Navigating to home...'', ''Waiting for 'Filament ID'...'',
        ''Checking visibility...'', ''Manual button NOT visible!''],
      calls = [SyncPlaywrightEnter, Launch True, NewContext 393 852, NewPage,
        Goto ''http://localhost:3000'', WaitForSelector ''text=Filament ID'' None,
        IsVisible manual_btn, BrowserClose, SyncPlaywrightExit],
      written = []\<rparr>)\<close>
  using assms
  by (simp add: verify_manual_button_def verify_manual_button_try_def
      verify_manual_button_body_def exec)

theorem manual_button_not_visible_witness:
  \<open>succeed env_hidden (prologue @
     [Goto ''http://localhost:3000'', WaitForSelector ''text=Filament ID'' None,
      IsVisible manual_btn, BrowserClose, SyncPlaywrightExit]) \<and>
   printed env_hidden [''Navigating to home...'', ''Waiting for 'Filament ID'...'',
        ''Checking visibility...'', ''Manual button NOT visible!''] \<and>
   \<not> visible env_hidden manual_btn \<and>
   fst (run (verify_manual_button env_hidden) Map.empty) = Inr () \<and>
   stdout (snd (run (verify_manual_button env_hidden) Map.empty)) =
     [''Navigating to home...'', ''Waiting for 'Filament ID'...'',
      ''Checking visibility...'', ''Manual button NOT visible!''] \<and>
   written (snd (run (verify_manual_button env_hidden) Map.empty)) = []\<close>
proof -
  have ok: "succeed env_hidden (prologue @
     [Goto ''http://localhost:3000'', WaitForSelector ''text=Filament ID'' None,
      IsVisible manual_btn, BrowserClose, SyncPlaywrightExit])"
    by (simp add: prologue_def envs)
  have pr: \<open>printed env_hidden [''Navigating to home...'', ''Waiting for 'Filament ID'...'',
        ''Checking visibility...'', ''Manual button NOT visible!'']\<close>
    by (simp add: envs)
  have hidden: "\<not> visible env_hidden manual_btn"
    by (simp add: envs)
  show ?thesis
    using ok pr hidden manual_button_not_visible [OF ok pr hidden, of Map.empty] by simp
qed

section \<open>The browser is closed on every way out of the try statement\<close>

text \<open>
  Claim C10. In \<^verbatim>\<open>verify_manual_button\<close> and \<^verbatim>\<open>verify_analysis_ui\<close>, once the
  \<^verbatim>\<open>try\<close> statement is entered, \<^verbatim>\<open>browser.close()\<close> is called exactly once, as the last
  call before the \<^verbatim>\<open>with\<close> block is left, however the body and the handler end; the
  witness is a run in which the screenshot of the handler itself raises.
\<close>

theorem browser_close_on_every_path:
  assumes "succeed E prologue"
  shows "(\<exists>cs. calls (snd (run (verify_manual_button E) fs)) =
             prologue @ cs @ [BrowserClose, SyncPlaywrightExit] \<and> BrowserClose \<notin> set cs) \<and>
         (\<exists>cs. calls (snd (run (verify_analysis_ui E) fs)) =
             prologue @ cs @ [BrowserClose, SyncPlaywrightExit] \<and> BrowserClose \<notin> set cs)"
  unfolding verify_manual_button_probe verify_analysis_ui_probe
  using probe_close_once [OF assms verify_manual_button_body_grows]
    probe_close_once [OF assms verify_analysis_ui_body_grows]
  by simp

theorem browser_close_on_every_path_witness:
  "succeed env_crash prologue \<and>
   fst (run (verify_manual_button env_crash) Map.empty) = Inl (Exception ''Target closed'') \<and>
   (\<exists>cs. calls (snd (run (verify_manual_button env_crash) Map.empty)) =
             prologue @ cs @ [BrowserClose, SyncPlaywrightExit] \<and> BrowserClose \<notin> set cs) \<and>
   (\<exists>cs. calls (snd (run (verify_analysis_ui env_crash) Map.empty)) =
             prologue @ cs @ [BrowserClose, SyncPlaywrightExit] \<and> BrowserClose \<notin> set cs)"
proof -
  have ok: "succeed env_crash prologue"
    by (simp add: prologue_def envs)
  have "fst (run (verify_manual_button env_crash) Map.empty) = Inl (Exception ''Target closed'')"
    by (simp add: verify_manual_button_def verify_manual_button_try_def
        verify_manual_button_body_def verify_manual_button_handler_def exec envs)
  then show ?thesis
    using ok browser_close_on_every_path [OF ok, of Map.empty] by simp
qed

section \<open>Runs in which the handler catches a failure\<close>

lemma files_finally_call_other:
  "c \<noteq> Screenshot p \<Longrightarrow> c \<noteq> OpenWB p \<Longrightarrow> (\<And>bs. c \<noteq> FileWrite p bs) \<Longrightarrow>
   files (snd (try_finally q (call E c) w)) p = files (snd (q w)) p"
  by (simp add: snd_try_finally files_call_other)

lemma probe_caught_files:
  assumes "succeed E prologue" and "body (entered fs) = (Inl e, w1)" and "isinstance_Exception e"
    and "print_raises E (''Error: '' @ str e) = None" and "outcome E (Screenshot err) = None"
  shows "files (snd (run (probe E body err) fs)) err = Some (render E err)"
  unfolding enter [OF assms(1)] using assms(4)
  by (simp add: files_finally_call_other caught [where body = body, OF assms(2,3)] call_ok assms(5))

lemma probe_closes:
  assumes "succeed E prologue"
  shows "BrowserClose \<in> set (calls (snd (run (probe E body err) fs)))"
  unfolding enter [OF assms] by (simp add: calls_finally_call)

lemma verify_manual_button_body_down:
  "verify_manual_button_body env_down (entered Map.empty) =
     (Inl (Exception ''net::ERR_CONNECTION_REFUSED''),
      \<lparr>files = Map.empty, stdout = [''Navigating to home...''],
       calls = prologue @ [Goto ''http://localhost:3000''], written = []\<rparr>)"
  by (simp add: verify_manual_button_body_def exec envs)

lemma verify_analysis_ui_body_down:
  "verify_analysis_ui_body env_down (entered Map.empty) =
     (Inl (Exception ''net::ERR_CONNECTION_REFUSED''),
      \<lparr>files = Map.empty, stdout = [''Navigating to home...''],
       calls = prologue @ [Goto ''http://localhost:3000''], written = []\<rparr>)"
  by (simp add: verify_analysis_ui_body_def exec envs)

lemma verify_analysis_ui_body_crash:
  "verify_analysis_ui_body env_crash (entered Map.empty) =
     (Inl (Exception ''Page crashed''),
      \<lparr>files = Map.empty, stdout = [''Navigating to home...''],
       calls = prologue @ [Goto ''http://localhost:3000''], written = []\<rparr>)"
  by (simp add: verify_analysis_ui_body_def exec envs)

lemma verify_manual_button_body_crash_twice:
  "verify_manual_button_body env_crash_twice (entered Map.empty) =
     (Inl (Exception ''Page crashed''),
      \<lparr>files = Map.empty, stdout = [''Navigating to home...''],
       calls = prologue @ [Goto ''http://localhost:3000''], written = []\<rparr>)"
  by (simp add: verify_manual_button_body_def exec envs)

lemma verify_manual_button_body_pipe:
  "verify_manual_button_body env_pipe (entered Map.empty) =
     (Inl (Exception ''[Errno 32] Broken pipe''),
      \<lparr>files = Map.empty, stdout = [], calls = prologue, written = []\<rparr>)"
  by (simp add: verify_manual_button_body_def exec envs)

lemma verify_analysis_ui_body_pipe:
  "verify_analysis_ui_body env_pipe (entered Map.empty) =
     (Inl (Exception ''[Errno 32] Broken pipe''),
      \<lparr>files = Map.empty, stdout = [], calls = prologue, written = []\<rparr>)"
  by (simp add: verify_analysis_ui_body_def exec envs)

lemma succeed_prologue_down: "succeed env_down prologue"
  by (simp add: prologue_def envs)

lemma succeed_prologue_crash: "succeed env_crash prologue"
  by (simp add: prologue_def envs)

lemma succeed_prologue_crash_twice: "succeed env_crash_twice prologue"
  by (simp add: prologue_def envs)

lemma succeed_prologue_pipe: "succeed env_pipe prologue"
  by (simp add: prologue_def envs)

section \<open>Error screenshot and release of the browser\<close>

text \<open>
  Claim C1 says that every script wraps its steps in \<^verbatim>\<open>try/except/finally\<close>, takes an
  error screenshot on any exception and releases the browser on every way out.
  \<^verbatim>\<open>scripts/verify_ui.py\<close> has no such statement: when navigation raises, the exception
  leaves the script, no screenshot call is made and \<^verbatim>\<open>browser.close()\<close> is not called;
  only the \<^verbatim>\<open>with\<close> block is left.
\<close>

theorem verify_ui_no_handler_counterexample:
  "run (verify_ui env_down) Map.empty =
     (Inl (Exception ''net::ERR_CONNECTION_REFUSED''),
      \<lparr>files = Map.empty, stdout = [],
       calls = [SyncPlaywrightEnter, Launch True, NewContext 393 852, NewPage,
                Goto ''http://localhost:3000/'', SyncPlaywrightExit],
       written = []\<rparr>)"
  by (simp add: verify_ui_def exec envs)

text \<open>
  Claim C1 as amended. In \<^verbatim>\<open>verify_manual_button\<close> and \<^verbatim>\<open>verify_analysis_ui\<close>, once the
  \<^verbatim>\<open>try\<close> statement is entered: whenever the steps raise an instance of
  \<^verbatim>\<open>Exception\<close>, the handler prints the error line and, provided that this
  \<^verbatim>\<open>print\<close> returns, the next calls are the error screenshot, \<^verbatim>\<open>browser.close()\<close>
  and the exit of the \<^verbatim>\<open>with\<close> block, and the error screenshot is on disk when that
  call returns; when the \<^verbatim>\<open>print\<close> raises, no screenshot call is made and only the two
  cleanup calls follow; and \<^verbatim>\<open>browser.close()\<close> is called on every way out.
\<close>

theorem handled_scripts_screenshot_and_close:
  "(succeed E prologue \<and> isinstance_Exception e \<and>
      verify_manual_button_body E (entered fs) = (Inl e, w1) \<longrightarrow>
      calls (snd (run (verify_manual_button E) fs)) =
        calls w1 @
        (case print_raises E (''Error: '' @ str e) of
           None \<Rightarrow> [Screenshot ''verification/error.png''] | Some x \<Rightarrow> []) @
        [BrowserClose, SyncPlaywrightExit] \<and>
      (print_raises E (''Error: '' @ str e) = None \<and>
       outcome E (Screenshot ''verification/error.png'') = None \<longrightarrow>
       files (snd (run (verify_manual_button E) fs)) ''verification/error.png'' =
         Some (render E ''verification/error.png''))) \<and>
   (succeed E prologue \<and> isinstance_Exception e \<and>
      verify_analysis_ui_body E (entered fs) = (Inl e, w1) \<longrightarrow>
      calls (snd (run (verify_analysis_ui E) fs)) =
        calls w1 @
        (case print_raises E (''Error: '' @ str e) of
           None \<Rightarrow> [Screenshot ''verification/error_analysis.png''] | Some x \<Rightarrow> []) @
        [BrowserClose, SyncPlaywrightExit] \<and>
      (print_raises E (''Error: '' @ str e) = None \<and>
       outcome E (Screenshot ''verification/error_analysis.png'') = None \<longrightarrow>
       files (snd (run (verify_analysis_ui E) fs)) ''verification/error_analysis.png'' =
         Some (render E ''verification/error_analysis.png''))) \<and>
   (succeed E prologue \<longrightarrow>
      BrowserClose \<in> set (calls (snd (run (verify_manual_button E) fs))) \<and>
      BrowserClose \<in> set (calls (snd (run (verify_analysis_ui E) fs))))"
  unfolding verify_manual_button_probe verify_analysis_ui_probe
  using probe_caught_calls [of E "verify_manual_button_body E" fs e w1 "''verification/error.png''"]
    probe_caught_calls [of E "verify_analysis_ui_body E" fs e w1 "''verification/error_analysis.png''"]
    probe_caught_files [of E "verify_manual_button_body E" fs e w1 "''verification/error.png''"]
    probe_caught_files [of E "verify_analysis_ui_body E" fs e w1 "''verification/error_analysis.png''"]
    probe_closes [of E "verify_manual_button_body E" "''verification/error.png''" fs]
    probe_closes [of E "verify_analysis_ui_body E" "''verification/error_analysis.png''" fs]
  by blast

theorem handled_scripts_screenshot_and_close_witness:
  "succeed env_down prologue \<and> succeed env_pipe prologue \<and>
   isinstance_Exception (Exception ''net::ERR_CONNECTION_REFUSED'') \<and>
   isinstance_Exception (Exception ''[Errno 32] Broken pipe'') \<and>
   print_raises env_down (''Error: '' @ str (Exception ''net::ERR_CONNECTION_REFUSED'')) = None \<and>
   calls (snd (run (verify_manual_button env_down) Map.empty)) =
     prologue @ [Goto ''http://localhost:3000'', Screenshot ''verification/error.png'',
                 BrowserClose, SyncPlaywrightExit] \<and>
   files (snd (run (verify_manual_button env_down) Map.empty)) ''verification/error.png'' =
     Some [] \<and>
   calls (snd (run (verify_analysis_ui env_down) Map.empty)) =
     prologue @ [Goto ''http://localhost:3000'', Screenshot ''verification/error_analysis.png'',
                 BrowserClose, SyncPlaywrightExit] \<and>
   calls (snd (run (verify_manual_button env_pipe) Map.empty)) =
     prologue @ [BrowserClose, SyncPlaywrightExit] \<and>
   calls (snd (run (verify_analysis_ui env_pipe) Map.empty)) =
     prologue @ [BrowserClose, SyncPlaywrightExit]"
  using handled_scripts_screenshot_and_close
    [of env_down "Exception ''net::ERR_CONNECTION_REFUSED''" Map.empty
      "\<lparr>files = Map.empty, stdout = [''Navigating to home...''],
        calls = prologue @ [Goto ''http://localhost:3000''], written = []\<rparr>"]
    handled_scripts_screenshot_and_close
    [of env_pipe "Exception ''[Errno 32] Broken pipe''" Map.empty
      "\<lparr>files = Map.empty, stdout = [], calls = prologue, written = []\<rparr>"]
    succeed_prologue_down verify_manual_button_body_down verify_analysis_ui_body_down
    succeed_prologue_pipe verify_manual_button_body_pipe verify_analysis_ui_body_pipe
  by (simp add: envs)

section \<open>The handler is not guarded\<close>

text \<open>
  Claim C2 says that a failure of the diagnostic screenshot is swallowed and that no
  error leaves the probe. The handler calls \<^verbatim>\<open>page.screenshot\<close> unguarded: when the page
  has crashed, navigation raises, the handler runs, its screenshot raises, and that
  exception leaves \<^verbatim>\<open>verify_manual_button\<close>.
\<close>

theorem handler_screenshot_not_swallowed_counterexample:
  "fst (run (verify_manual_button env_crash) Map.empty) = Inl (Exception ''Target closed'')"
  by (simp add: verify_manual_button_def verify_manual_button_try_def
      verify_manual_button_body_def verify_manual_button_handler_def exec envs)

text \<open>
  Claim C2 as amended. When a step failure is caught by the handler of
  \<^verbatim>\<open>verify_manual_button\<close> or \<^verbatim>\<open>verify_analysis_ui\<close>, the handler prints the error line
  and, once that \<^verbatim>\<open>print\<close> has returned, attempts the diagnostic screenshot once;
  neither is guarded. A failure of the \<^verbatim>\<open>print\<close> or of the screenshot is not swallowed:
  the run then ends with an exception, which is the one of the \<^verbatim>\<open>print\<close> or the
  screenshot unless \<^verbatim>\<open>browser.close()\<close> or the exit of the \<^verbatim>\<open>with\<close> block raises in
  turn and its exception takes the place. The run ends normally, with no error leaving
  the probe, exactly when the \<^verbatim>\<open>print\<close>, the screenshot and the two cleanup calls all
  return.
\<close>

theorem handler_screenshot_decides_result:
  "(succeed E prologue \<and> isinstance_Exception e \<and>
      verify_manual_button_body E (entered fs) = (Inl e, w1) \<longrightarrow>
      fst (run (verify_manual_button E) fs) =
        (case outcome E SyncPlaywrightExit of
           Some e3 \<Rightarrow> Inl e3
         | None \<Rightarrow>
            (case outcome E BrowserClose of
               Some e2 \<Rightarrow> Inl e2
             | None \<Rightarrow>
                (case print_raises E (''Error: '' @ str e) of
                   Some e0 \<Rightarrow> Inl e0
                 | None \<Rightarrow>
                    (case outcome E (Screenshot ''verification/error.png'') of
                       Some e1 \<Rightarrow> Inl e1
                     | None \<Rightarrow> Inr ())))) \<and>
      calls (snd (run (verify_manual_button E) fs)) =
        calls w1 @
        (case print_raises E (''Error: '' @ str e) of
           None \<Rightarrow> [Screenshot ''verification/error.png''] | Some x \<Rightarrow> []) @
        [BrowserClose, SyncPlaywrightExit]) \<and>
   (succeed E prologue \<and> isinstance_Exception e \<and>
      verify_analysis_ui_body E (entered fs) = (Inl e, w1) \<longrightarrow>
      fst (run (verify_analysis_ui E) fs) =
        (case outcome E SyncPlaywrightExit of
           Some e3 \<Rightarrow> Inl e3
         | None \<Rightarrow>
            (case outcome E BrowserClose of
               Some e2 \<Rightarrow> Inl e2
             | None \<Rightarrow>
                (case print_raises E (''Error: '' @ str e) of
                   Some e0 \<Rightarrow> Inl e0
                 | None \<Rightarrow>
                    (case outcome E (Screenshot ''verification/error_analysis.png'') of
                       Some e1 \<Rightarrow> Inl e1
                     | None \<Rightarrow> Inr ())))) \<and>
      calls (snd (run (verify_analysis_ui E) fs)) =
        calls w1 @
        (case print_raises E (''Error: '' @ str e) of
           None \<Rightarrow> [Screenshot ''verification/error_analysis.png''] | Some x \<Rightarrow> []) @
        [BrowserClose, SyncPlaywrightExit])"
  unfolding verify_manual_button_probe verify_analysis_ui_probe
  using probe_caught_result [of E "verify_manual_button_body E" fs e w1 "''verification/error.png''"]
    probe_caught_result [of E "verify_analysis_ui_body E" fs e w1 "''verification/error_analysis.png''"]
    probe_caught_calls [of E "verify_manual_button_body E" fs e w1 "''verification/error.png''"]
    probe_caught_calls [of E "verify_analysis_ui_body E" fs e w1 "''verification/error_analysis.png''"]
  by blast

theorem handler_screenshot_decides_result_witness:
  "succeed env_down prologue \<and> succeed env_crash prologue \<and>
   succeed env_crash_twice prologue \<and> succeed env_pipe prologue \<and>
   fst (run (verify_manual_button env_down) Map.empty) = Inr () \<and>
   fst (run (verify_analysis_ui env_crash) Map.empty) = Inl (Exception ''Target closed'') \<and>
   fst (run (verify_manual_button env_crash_twice) Map.empty) =
     Inl (Exception ''Browser has been closed'') \<and>
   fst (run (verify_manual_button env_pipe) Map.empty) =
     Inl (Exception ''[Errno 32] Broken pipe'') \<and>
   calls (snd (run (verify_manual_button env_pipe) Map.empty)) =
     prologue @ [BrowserClose, SyncPlaywrightExit]"
  using handler_screenshot_decides_result
    [of env_down "Exception ''net::ERR_CONNECTION_REFUSED''" Map.empty
      "\<lparr>files = Map.empty, stdout = [''Navigating to home...''],
        calls = prologue @ [Goto ''http://localhost:3000''], written = []\<rparr>"]
    handler_screenshot_decides_result
    [of env_crash "Exception ''Page crashed''" Map.empty
      "\<lparr>files = Map.empty, stdout = [''Navigating to home...''],
        calls = prologue @ [Goto ''http://localhost:3000''], written = []\<rparr>"]
    handler_screenshot_decides_result
    [of env_crash_twice "Exception ''Page crashed''" Map.empty
      "\<lparr>files = Map.empty, stdout = [''Navigating to home...''],
        calls = prologue @ [Goto ''http://localhost:3000''], written = []\<rparr>"]
    handler_screenshot_decides_result
    [of env_pipe "Exception ''[Errno 32] Broken pipe''" Map.empty
      "\<lparr>files = Map.empty, stdout = [], calls = prologue, written = []\<rparr>"]
    succeed_prologue_down succeed_prologue_crash succeed_prologue_crash_twice
    succeed_prologue_pipe
    verify_manual_button_body_down verify_analysis_ui_body_crash
    verify_manual_button_body_crash_twice verify_manual_button_body_pipe
  by (simp add: envs)

section \<open>The printed error line\<close>

text \<open>
  Claim C7. Whenever the handler of \<^verbatim>\<open>verify_manual_button\<close> or
  \<^verbatim>\<open>verify_analysis_ui\<close> catches a failure \<open>e\<close>, the line it prints is \<^verbatim>\<open>Error: \<close>
  followed by \<^verbatim>\<open>str(e)\<close>; it is the last line of the output. Nothing else is printed
  for the failure: when the \<^verbatim>\<open>print\<close> itself raises, the output stays as it was.
\<close>

theorem caught_failure_printed_with_prefix:
  "(succeed E prologue \<and> isinstance_Exception e \<and>
      verify_manual_button_body E (entered fs) = (Inl e, w1) \<longrightarrow>
      stdout (snd (run (verify_manual_button E) fs)) =
        (case print_raises E (''Error: '' @ str e) of
           None \<Rightarrow> stdout w1 @ [''Error: '' @ str e] | Some x \<Rightarrow> stdout w1)) \<and>
   (succeed E prologue \<and> isinstance_Exception e \<and>
      verify_analysis_ui_body E (entered fs) = (Inl e, w1) \<longrightarrow>
      stdout (snd (run (verify_analysis_ui E) fs)) =
        (case print_raises E (''Error: '' @ str e) of
           None \<Rightarrow> stdout w1 @ [''Error: '' @ str e] | Some x \<Rightarrow> stdout w1))"
  unfolding verify_manual_button_probe verify_analysis_ui_probe
  using probe_caught_stdout [of E "verify_manual_button_body E" fs e w1 "''verification/error.png''"]
    probe_caught_stdout [of E "verify_analysis_ui_body E" fs e w1 "''verification/error_analysis.png''"]
  by blast

theorem caught_failure_printed_with_prefix_witness:
  "succeed env_down prologue \<and>
   isinstance_Exception (Exception ''net::ERR_CONNECTION_REFUSED'') \<and>
   stdout (snd (run (verify_manual_button env_down) Map.empty)) =
     [''Navigating to home...'', ''Error: net::ERR_CONNECTION_REFUSED''] \<and>
   stdout (snd (run (verify_analysis_ui env_down) Map.empty)) =
     [''Navigating to home...'', ''Error: net::ERR_CONNECTION_REFUSED'']"
  using caught_failure_printed_with_prefix
    [of env_down "Exception ''net::ERR_CONNECTION_REFUSED''" Map.empty
      "\<lparr>files = Map.empty, stdout = [''Navigating to home...''],
        calls = prologue @ [Goto ''http://localhost:3000''], written = []\<rparr>"]
    succeed_prologue_down verify_manual_button_body_down verify_analysis_ui_body_down
  by (simp add: envs)

subsection \<open>Which files a statement can touch\<close>

lemma same_file_refl: "same_file p w w"
  by (simp add: same_file_def)

lemma same_file_trans: "same_file p w1 w2 \<Longrightarrow> same_file p w2 w3 \<Longrightarrow> same_file p w1 w3"
  by (simp add: same_file_def)

lemma same_file_call:
  "c \<noteq> Screenshot p \<Longrightarrow> c \<noteq> OpenWB p \<Longrightarrow> (\<And>bs. c \<noteq> FileWrite p bs) \<Longrightarrow>
   preserves (same_file p) (call E c)"
  by (simp add: preserves_def same_file_def files_call_other)

lemma same_file_print: "preserves (same_file p) (print E s)"
  by (simp add: preserves_def same_file_def print_def split: option.split)

lemmas same_file_block = preserves_block [of "same_file p" for p, OF same_file_refl same_file_trans]
lemmas same_file_try_except = preserves_try_except [of "same_file p" for p, OF same_file_trans]
lemmas same_file_try_finally = preserves_try_finally [of "same_file p" for p, OF same_file_trans]
lemmas same_file_intros = same_file_block same_file_try_except same_file_try_finally
  same_file_call same_file_print

subsection \<open>verify\_analysis\_ui after the fixture is written\<close>

lemma analysis_after_write:
  assumes "succeed E (prologue @
     [Goto ''http://localhost:3000'', OpenWB dummy_path, FileWrite dummy_path dummy_png])"
    and "printed E [''Navigating to home...'', ''Uploading dummy image...'']"
  shows "run (verify_analysis_ui E) fs =
     try_finally
       (try_finally
          (try_except
             (block [
                call E (SetInputFiles file_input dummy_path),
                print E ''Waiting for Analysis View...'',
                call E (WaitForSelector ''text=NEURAL SCAN'' (Some 5000)),
                print E ''Taking screenshot...'',
                call E (Screenshot ''verification/analysis_ui_check.png''),
                print E ''Screenshot saved to verification/analysis_ui_check.png''])
             (\<lambda>e. block [print E (''Error: '' @ str e),
                    call E (Screenshot ''verification/error_analysis.png'')]))
          (call E BrowserClose))
       (call E SyncPlaywrightExit)
       \<lparr>files = fs(dummy_path \<mapsto> dummy_png),
        stdout = [''Navigating to home...'', ''Uploading dummy image...''],
        calls = prologue @
          [Goto ''http://localhost:3000'', OpenWB dummy_path, FileWrite dummy_path dummy_png],
        written = [dummy_path]\<rparr>"
proof -
  have ok: "succeed E prologue" "outcome E (Goto ''http://localhost:3000'') = None"
    "outcome E (OpenWB dummy_path) = None" "outcome E (FileWrite dummy_path dummy_png) = None"
    using assms by (simp_all add: prologue_def)
  have pr: "print_raises E ''Navigating to home...'' = None"
    "print_raises E ''Uploading dummy image...'' = None"
    using assms by simp_all
  have body: "verify_analysis_ui_body E (entered fs) =
     block [
        call E (SetInputFiles file_input dummy_path),
        print E ''Waiting for Analysis View...'',
        call E (WaitForSelector ''text=NEURAL SCAN'' (Some 5000)),
        print E ''Taking screenshot...'',
        call E (Screenshot ''verification/analysis_ui_check.png''),
        print E ''Screenshot saved to verification/analysis_ui_check.png'']
       \<lparr>files = fs(dummy_path \<mapsto> dummy_png),
        stdout = [''Navigating to home...'', ''Uploading dummy image...''],
        calls = prologue @
          [Goto ''http://localhost:3000'', OpenWB dummy_path, FileWrite dummy_path dummy_png],
        written = [dummy_path]\<rparr>"
    unfolding verify_analysis_ui_body_def
    by (simp add: block_print block_call_ok ok(2-4) pr entered_def del: block.simps)
  show ?thesis
    unfolding verify_analysis_ui_probe enter [OF ok(1)]
    by (simp add: try_finally_def try_except_def body del: block.simps)
qed

lemma analysis_fixture_stays:
  assumes "succeed E (prologue @
     [Goto ''http://localhost:3000'', OpenWB dummy_path, FileWrite dummy_path dummy_png])"
    and "printed E [''Navigating to home...'', ''Uploading dummy image...'']"
  shows "files (snd (run (verify_analysis_ui E) fs)) dummy_path = Some dummy_png"
proof -
  let ?rest = "try_finally
       (try_finally
          (try_except
             (block [
                call E (SetInputFiles file_input dummy_path),
                print E ''Waiting for Analysis View...'',
                call E (WaitForSelector ''text=NEURAL SCAN'' (Some 5000)),
                print E ''Taking screenshot...'',
                call E (Screenshot ''verification/analysis_ui_check.png''),
                print E ''Screenshot saved to verification/analysis_ui_check.png''])
             (\<lambda>e. block [print E (''Error: '' @ str e),
                    call E (Screenshot ''verification/error_analysis.png'')]))
          (call E BrowserClose))
       (call E SyncPlaywrightExit)"
  have "preserves (same_file dummy_path) ?rest"
    by (intro same_file_intros; simp add: same_file_intros dummy_path_def)
  then show ?thesis
    unfolding analysis_after_write [OF assms]
    by (simp add: preserves_def same_file_def)
qed

lemma analysis_calls_after_write:
  assumes "succeed E (prologue @
     [Goto ''http://localhost:3000'', OpenWB dummy_path, FileWrite dummy_path dummy_png])"
    and "printed E [''Navigating to home...'', ''Uploading dummy image...'']"
  shows "\<exists>cs. calls (snd (run (verify_analysis_ui E) fs)) =
      prologue @ [Goto ''http://localhost:3000'', OpenWB dummy_path, FileWrite dummy_path dummy_png] @ cs \<and>
      set cs \<subseteq> {SetInputFiles file_input dummy_path, WaitForSelector ''text=NEURAL SCAN'' (Some 5000),
        Screenshot ''verification/analysis_ui_check.png'', Screenshot ''verification/error_analysis.png'',
        BrowserClose, SyncPlaywrightExit}"
proof -
  let ?S = "{SetInputFiles file_input dummy_path, WaitForSelector ''text=NEURAL SCAN'' (Some 5000),
        Screenshot ''verification/analysis_ui_check.png'', Screenshot ''verification/error_analysis.png'',
        BrowserClose, SyncPlaywrightExit}"
  let ?rest = "try_finally
       (try_finally
          (try_except
             (block [
                call E (SetInputFiles file_input dummy_path),
                print E ''Waiting for Analysis View...'',
                call E (WaitForSelector ''text=NEURAL SCAN'' (Some 5000)),
                print E ''Taking screenshot...'',
                call E (Screenshot ''verification/analysis_ui_check.png''),
                print E ''Screenshot saved to verification/analysis_ui_check.png''])
             (\<lambda>e. block [print E (''Error: '' @ str e),
                    call E (Screenshot ''verification/error_analysis.png'')]))
          (call E BrowserClose))
       (call E SyncPlaywrightExit)"
  let ?w = "\<lparr>files = fs(dummy_path \<mapsto> dummy_png),
        stdout = [''Navigating to home...'', ''Uploading dummy image...''],
        calls = prologue @
          [Goto ''http://localhost:3000'', OpenWB dummy_path, FileWrite dummy_path dummy_png],
        written = [dummy_path]\<rparr>"
  have "preserves (grows ?S) ?rest"
    by (intro grows_intros; simp add: grows_intros)
  then have "grows ?S ?w (snd (?rest ?w))"
    unfolding preserves_def by (rule spec)
  then show ?thesis
    unfolding analysis_after_write [OF assms]
    by (simp add: grows_def)
qed

lemma succeed_write_ok: "succeed env_ok (prologue @
     [Goto ''http://localhost:3000'', OpenWB dummy_path, FileWrite dummy_path dummy_png])"
  by (simp add: prologue_def envs)

lemma succeed_write_never: "succeed env_never (prologue @
     [Goto ''http://localhost:3000'', OpenWB dummy_path, FileWrite dummy_path dummy_png])"
  by (simp add: prologue_def envs)

lemma succeed_write_no_input: "succeed env_no_input (prologue @
     [Goto ''http://localhost:3000'', OpenWB dummy_path, FileWrite dummy_path dummy_png])"
  by (simp add: prologue_def envs)

lemma printed_write_ok:
  "printed env_ok [''Navigating to home...'', ''Uploading dummy image...'']"
  by (simp add: envs)

lemma printed_write_never:
  "printed env_never [''Navigating to home...'', ''Uploading dummy image...'']"
  by (simp add: envs)

lemma printed_write_no_input:
  "printed env_no_input [''Navigating to home...'', ''Uploading dummy image...'']"
  by (simp add: envs)

lemma dummy_png_not_zero: "dummy_png \<noteq> [0]"
  by (simp add: dummy_png_def)

section \<open>The fixture file is rewritten\<close>

text \<open>
  Claim C4 says that the fixture file is created only if absent and that a file already
  at the path is reused with its contents unchanged. The script opens the path with mode
  \<^verbatim>\<open>"wb"\<close> unconditionally: a file that held the single byte 0 holds the literal after
  the run.
\<close>

theorem fixture_reused_counterexample:
  "[dummy_path \<mapsto> [0]] dummy_path = Some [0] \<and>
   files (snd (run (verify_analysis_ui env_ok) [dummy_path \<mapsto> [0]])) dummy_path = Some dummy_png \<and>
   dummy_png \<noteq> [0]"
  using analysis_fixture_stays [OF succeed_write_ok printed_write_ok, of "[dummy_path \<mapsto> [0]]"]
    dummy_png_not_zero
  by simp

text \<open>
  Claim C4 as amended. Every run of \<^verbatim>\<open>verify_analysis_ui\<close> that reaches the upload step
  (navigation returned, the two progress lines were printed) opens the fixture path for
  writing and writes the literal, whatever the disk held; when both calls return, the file
  holds exactly the literal from then on.
\<close>

theorem fixture_rewritten_on_every_run:
  assumes "succeed E (prologue @
     [Goto ''http://localhost:3000'', OpenWB dummy_path, FileWrite dummy_path dummy_png])"
    and "printed E [''Navigating to home...'', ''Uploading dummy image...'']"
  shows "OpenWB dummy_path \<in> set (calls (snd (run (verify_analysis_ui E) fs))) \<and>
         FileWrite dummy_path dummy_png \<in> set (calls (snd (run (verify_analysis_ui E) fs))) \<and>
         files (snd (run (verify_analysis_ui E) fs)) dummy_path = Some dummy_png"
  using analysis_calls_after_write [OF assms, of fs] analysis_fixture_stays [OF assms, of fs]
  by auto

theorem fixture_rewritten_on_every_run_witness:
  "succeed env_ok (prologue @
     [Goto ''http://localhost:3000'', OpenWB dummy_path, FileWrite dummy_path dummy_png]) \<and>
   printed env_ok [''Navigating to home...'', ''Uploading dummy image...''] \<and>
   OpenWB dummy_path \<in> set (calls (snd (run (verify_analysis_ui env_ok) [dummy_path \<mapsto> [1, 2, 3]]))) \<and>
   files (snd (run (verify_analysis_ui env_ok) [dummy_path \<mapsto> [1, 2, 3]])) dummy_path = Some dummy_png"
  using succeed_write_ok printed_write_ok
    fixture_rewritten_on_every_run
      [OF succeed_write_ok printed_write_ok, of "[dummy_path \<mapsto> [1, 2, 3]]"]
  by simp

section \<open>The fixture file outlasts a failing run\<close>

text \<open>
  Claim C9. In \<^verbatim>\<open>verify_analysis_ui\<close> the fixture is written before the file input is
  used and before the text is awaited: the calls that can follow the write are the upload,
  the wait, the screenshots and the cleanup. So once the write returned (which takes
  that navigation returned and the two progress lines before it were printed), however the
  later steps end, the run leaves \<^verbatim>\<open>verification/dummy.png\<close> holding the literal, and the disk
  differs from the one the run started with unless the file was already there with these
  bytes. The witness holds two failing runs: no file input, and a text that never appears.
\<close>

theorem fixture_lasts_when_later_steps_fail:
  assumes "succeed E (prologue @
     [Goto ''http://localhost:3000'', OpenWB dummy_path, FileWrite dummy_path dummy_png])"
    and "printed E [''Navigating to home...'', ''Uploading dummy image...'']"
  shows "files (snd (run (verify_analysis_ui E) fs)) dummy_path = Some dummy_png \<and>
         (fs dummy_path \<noteq> Some dummy_png \<longrightarrow> files (snd (run (verify_analysis_ui E) fs)) \<noteq> fs) \<and>
         (\<exists>cs. calls (snd (run (verify_analysis_ui E) fs)) =
            prologue @
            [Goto ''http://localhost:3000'', OpenWB dummy_path, FileWrite dummy_path dummy_png] @ cs \<and>
            set cs \<subseteq> {SetInputFiles file_input dummy_path,
              WaitForSelector ''text=NEURAL SCAN'' (Some 5000),
              Screenshot ''verification/analysis_ui_check.png'',
              Screenshot ''verification/error_analysis.png'',
              BrowserClose, SyncPlaywrightExit})"
  using analysis_calls_after_write [OF assms, of fs] analysis_fixture_stays [OF assms, of fs]
  by auto

theorem fixture_lasts_when_later_steps_fail_witness:
  "succeed env_no_input (prologue @
     [Goto ''http://localhost:3000'', OpenWB dummy_path, FileWrite dummy_path dummy_png]) \<and>
   succeed env_never (prologue @
     [Goto ''http://localhost:3000'', OpenWB dummy_path, FileWrite dummy_path dummy_png]) \<and>
   printed env_no_input [''Navigating to home...'', ''Uploading dummy image...''] \<and>
   printed env_never [''Navigating to home...'', ''Uploading dummy image...''] \<and>
   stdout (snd (run (verify_analysis_ui env_no_input) Map.empty)) =
     [''Navigating to home...'', ''Uploading dummy image...'', ''Error: No element matches''] \<and>
   files (snd (run (verify_analysis_ui env_no_input) Map.empty)) dummy_path = Some dummy_png \<and>
   stdout (snd (run (verify_analysis_ui env_never) Map.empty)) =
     [''Navigating to home...'', ''Uploading dummy image...'', ''Waiting for Analysis View...'',
      ''Error: Timeout 5000ms exceeded.''] \<and>
   files (snd (run (verify_analysis_ui env_never) Map.empty)) dummy_path = Some dummy_png"
proof -
  have 1: "stdout (snd (run (verify_analysis_ui env_no_input) Map.empty)) =
     [''Navigating to home...'', ''Uploading dummy image...'', ''Error: No element matches'']"
    by (simp add: verify_analysis_ui_def verify_analysis_ui_try_def verify_analysis_ui_body_def
        verify_analysis_ui_handler_def exec envs)
  have 2: "stdout (snd (run (verify_analysis_ui env_never) Map.empty)) =
     [''Navigating to home...'', ''Uploading dummy image...'', ''Waiting for Analysis View...'',
      ''Error: Timeout 5000ms exceeded.'']"
    by (simp add: verify_analysis_ui_def verify_analysis_ui_try_def verify_analysis_ui_body_def
        verify_analysis_ui_handler_def exec envs)
  show ?thesis
    using 1 2 succeed_write_no_input succeed_write_never
      printed_write_no_input printed_write_never
      fixture_lasts_when_later_steps_fail
        [OF succeed_write_no_input printed_write_no_input, of Map.empty]
      fixture_lasts_when_later_steps_fail
        [OF succeed_write_never printed_write_never, of Map.empty]
    by simp
qed

subsection \<open>The wait\_for\_selector calls of a log\<close>

lemma wait_args_set: "set (wait_args cs) = {(s, t). WaitForSelector s t \<in> set cs}"
  by (induction cs rule: wait_args.induct) auto

lemma run_grows:
  assumes "preserves (grows S) p"
  shows "set (calls (snd (run p fs))) \<subseteq> S"
proof -
  have "grows S (start fs) (snd (p (start fs)))"
    using assms unfolding preserves_def by (rule spec)
  then show ?thesis
    by (auto simp: grows_def run_def start_def)
qed

lemma verify_ui_grows:
  "preserves (grows {SyncPlaywrightEnter, SyncPlaywrightExit, Launch True, NewContext 393 852,
      NewPage, Goto ''http://localhost:3000/'', Screenshot ''/home/jules/verification/home_v2.png'',
      Click (GetByText ''Manual''), Screenshot ''/home/jules/verification/editor_v2.png'',
      BrowserClose}) (verify_ui E)"
  unfolding verify_ui_def with_sync_playwright_def
  by (intro grows_intros; simp add: grows_intros)

lemma verify_ui_waits: "wait_args (calls (snd (run (verify_ui E) fs))) = []"
proof -
  have "set (wait_args (calls (snd (run (verify_ui E) fs)))) = {}"
    using run_grows [OF verify_ui_grows, of E fs] by (auto simp: wait_args_set)
  then show ?thesis by simp
qed

lemma verify_manual_button_waits:
  "set (wait_args (calls (snd (run (verify_manual_button E) fs)))) \<subseteq> {(''text=Filament ID'', None)}"
proof -
  have "preserves (grows ({Goto ''http://localhost:3000'', WaitForSelector ''text=Filament ID'' None,
      IsVisible manual_btn, ScrollIntoViewIfNeeded manual_btn,
      Screenshot ''verification/manual_button_check.png''} \<union>
      {SyncPlaywrightEnter, SyncPlaywrightExit, Launch True, NewContext 393 852, NewPage,
       Screenshot ''verification/error.png'', BrowserClose})) (verify_manual_button E)"
    unfolding verify_manual_button_probe
    by (rule probe_grows [OF verify_manual_button_body_grows]) auto
  from run_grows [OF this, of fs] show ?thesis
    by (auto simp: wait_args_set)
qed

lemma verify_analysis_ui_waits:
  "set (wait_args (calls (snd (run (verify_analysis_ui E) fs)))) \<subseteq> {(''text=NEURAL SCAN'', Some 5000)}"
proof -
  have "preserves (grows ({Goto ''http://localhost:3000'', OpenWB dummy_path,
      FileWrite dummy_path dummy_png, SetInputFiles file_input dummy_path,
      WaitForSelector ''text=NEURAL SCAN'' (Some 5000),
      Screenshot ''verification/analysis_ui_check.png''} \<union>
      {SyncPlaywrightEnter, SyncPlaywrightExit, Launch True, NewContext 393 852, NewPage,
       Screenshot ''verification/error_analysis.png'', BrowserClose})) (verify_analysis_ui E)"
    unfolding verify_analysis_ui_probe
    by (rule probe_grows [OF verify_analysis_ui_body_grows]) auto
  from run_grows [OF this, of fs] show ?thesis
    by (auto simp: wait_args_set)
qed

lemma wait_times_out:
  assumes "raises E (WaitForSelector s t) = None"
    and "\<And>d. appears E s = Some d \<Longrightarrow> timeout_of t < d"
  shows "outcome E (WaitForSelector s t) = Some (TimeoutError (timeout_of t))"
  using assms by (cases "appears E s") (auto simp: outcome_def wait_outcome_def)

lemma wait_in_time:
  assumes "raises E (WaitForSelector s t) = None" and "appears E s = Some d" and "d \<le> timeout_of t"
  shows "outcome E (WaitForSelector s t) = None"
  using assms by (simp add: outcome_def wait_outcome_def)

lemma verify_manual_button_body_times_out:
  assumes "outcome E (Goto ''http://localhost:3000'') = None"
    and "raises E (WaitForSelector ''text=Filament ID'' None) = None"
    and "\<And>d. appears E ''text=Filament ID'' = Some d \<Longrightarrow> 30000 < d"
    and \<open>printed E [''Navigating to home...'', ''Waiting for 'Filament ID'...'']\<close>
  shows \<open>verify_manual_button_body E (entered fs) =
     (Inl (TimeoutError 30000),
      \<lparr>files = fs, stdout = [''Navigating to home...'', ''Waiting for 'Filament ID'...''],
       calls = prologue @ [Goto ''http://localhost:3000'', WaitForSelector ''text=Filament ID'' None],
       written = []\<rparr>)\<close>
proof -
  have "outcome E (WaitForSelector ''text=Filament ID'' None) = Some (TimeoutError 30000)"
    using wait_times_out [OF assms(2)] assms(3) by (simp add: default_timeout_def)
  then show ?thesis
    using assms(4) unfolding verify_manual_button_body_def
    by (simp add: block_print block_call_ok block_call_raises assms(1) entered_def del: block.simps)
qed

lemma verify_analysis_ui_body_times_out:
  assumes "succeed E [Goto ''http://localhost:3000'', OpenWB dummy_path,
      FileWrite dummy_path dummy_png, SetInputFiles file_input dummy_path]"
    and "raises E (WaitForSelector ''text=NEURAL SCAN'' (Some 5000)) = None"
    and "\<And>d. appears E ''text=NEURAL SCAN'' = Some d \<Longrightarrow> 5000 < d"
    and "printed E [''Navigating to home...'', ''Uploading dummy image...'',
      ''Waiting for Analysis View...'']"
  shows "verify_analysis_ui_body E (entered fs) =
     (Inl (TimeoutError 5000),
      \<lparr>files = fs(dummy_path \<mapsto> dummy_png),
       stdout = [''Navigating to home...'', ''Uploading dummy image...'',
         ''Waiting for Analysis View...''],
       calls = prologue @ [Goto ''http://localhost:3000'', OpenWB dummy_path,
         FileWrite dummy_path dummy_png, SetInputFiles file_input dummy_path,
         WaitForSelector ''text=NEURAL SCAN'' (Some 5000)],
       written = [dummy_path]\<rparr>)"
proof -
  have "outcome E (WaitForSelector ''text=NEURAL SCAN'' (Some 5000)) = Some (TimeoutError 5000)"
    using wait_times_out [OF assms(2)] assms(3) by simp
  then show ?thesis
    using assms(1,4) unfolding verify_analysis_ui_body_def
    by (simp add: block_print block_call_ok block_call_raises entered_def del: block.simps)
qed

section \<open>Waiting for text\<close>

text \<open>
  Claim C5. The scripts wait for a text in two places: \<^verbatim>\<open>verify_manual_button\<close> waits
  for "Filament ID" with no timeout argument, hence the default of 30 seconds, and
  \<^verbatim>\<open>verify_analysis_ui\<close> waits for "NEURAL SCAN" with the explicit timeout of 5 seconds;
  \<^verbatim>\<open>verify_ui\<close> never waits. A wait whose element is not on the page within its bound
  fails with a timeout error carrying that bound, and the steps of the script, once they
  have reached the wait, fail with it; a wait whose element appears in time returns.
\<close>

theorem wait_steps_and_their_timeouts:
  \<open>wait_args (calls (snd (run (verify_ui E) fs))) = [] \<and>
   set (wait_args (calls (snd (run (verify_manual_button E) fs)))) \<subseteq>
     {(''text=Filament ID'', None)} \<and>
   set (wait_args (calls (snd (run (verify_analysis_ui E) fs)))) \<subseteq>
     {(''text=NEURAL SCAN'', Some 5000)} \<and>
   timeout_of None = 30000 \<and> timeout_of (Some 5000) = 5000 \<and>
   (raises E (WaitForSelector s t) = None \<and> (\<forall>d. appears E s = Some d \<longrightarrow> timeout_of t < d) \<longrightarrow>
      outcome E (WaitForSelector s t) = Some (TimeoutError (timeout_of t))) \<and>
   (raises E (WaitForSelector s t) = None \<and> appears E s = Some d \<and> d \<le> timeout_of t \<longrightarrow>
      outcome E (WaitForSelector s t) = None) \<and>
   (printed E [''Navigating to home...'', ''Waiting for 'Filament ID'...''] \<and>
    outcome E (Goto ''http://localhost:3000'') = None \<and>
    raises E (WaitForSelector ''text=Filament ID'' None) = None \<and>
    (\<forall>d. appears E ''text=Filament ID'' = Some d \<longrightarrow> 30000 < d) \<longrightarrow>
      verify_manual_button_body E (entered fs) =
        (Inl (TimeoutError 30000),
         \<lparr>files = fs, stdout = [''Navigating to home...'', ''Waiting for 'Filament ID'...''],
          calls = prologue @
            [Goto ''http://localhost:3000'', WaitForSelector ''text=Filament ID'' None],
          written = []\<rparr>)) \<and>
   (printed E [''Navigating to home...'', ''Uploading dummy image...'',
      ''Waiting for Analysis View...''] \<and>
    succeed E [Goto ''http://localhost:3000'', OpenWB dummy_path,
      FileWrite dummy_path dummy_png, SetInputFiles file_input dummy_path] \<and>
    raises E (WaitForSelector ''text=NEURAL SCAN'' (Some 5000)) = None \<and>
    (\<forall>d. appears E ''text=NEURAL SCAN'' = Some d \<longrightarrow> 5000 < d) \<longrightarrow>
      verify_analysis_ui_body E (entered fs) =
        (Inl (TimeoutError 5000),
         \<lparr>files = fs(dummy_path \<mapsto> dummy_png),
          stdout = [''Navigating to home...'', ''Uploading dummy image...'',
            ''Waiting for Analysis View...''],
          calls = prologue @ [Goto ''http://localhost:3000'', OpenWB dummy_path,
            FileWrite dummy_path dummy_png, SetInputFiles file_input dummy_path,
            WaitForSelector ''text=NEURAL SCAN'' (Some 5000)],
          written = [dummy_path]\<rparr>))\<close>
proof (intro conjI impI)
  show "wait_args (calls (snd (run (verify_ui E) fs))) = []"
    by (rule verify_ui_waits)
  show "set (wait_args (calls (snd (run (verify_manual_button E) fs)))) \<subseteq>
     {(''text=Filament ID'', None)}"
    by (rule verify_manual_button_waits)
  show "set (wait_args (calls (snd (run (verify_analysis_ui E) fs)))) \<subseteq>
     {(''text=NEURAL SCAN'', Some 5000)}"
    by (rule verify_analysis_ui_waits)
  show "timeout_of None = 30000" "timeout_of (Some 5000) = 5000"
    by (simp_all add: default_timeout_def)
next
  assume "raises E (WaitForSelector s t) = None \<and> (\<forall>d. appears E s = Some d \<longrightarrow> timeout_of t < d)"
  then show "outcome E (WaitForSelector s t) = Some (TimeoutError (timeout_of t))"
    by (intro wait_times_out) auto
next
  assume "raises E (WaitForSelector s t) = None \<and> appears E s = Some d \<and> d \<le> timeout_of t"
  then show "outcome E (WaitForSelector s t) = None"
    by (auto intro: wait_in_time)
next
  assume \<open>printed E [''Navigating to home...'', ''Waiting for 'Filament ID'...''] \<and>
    outcome E (Goto ''http://localhost:3000'') = None \<and>
    raises E (WaitForSelector ''text=Filament ID'' None) = None \<and>
    (\<forall>d. appears E ''text=Filament ID'' = Some d \<longrightarrow> 30000 < d)\<close>
  then show \<open>verify_manual_button_body E (entered fs) =
        (Inl (TimeoutError 30000),
         \<lparr>files = fs, stdout = [''Navigating to home...'', ''Waiting for 'Filament ID'...''],
          calls = prologue @
            [Goto ''http://localhost:3000'', WaitForSelector ''text=Filament ID'' None],
          written = []\<rparr>)\<close>
    by (intro verify_manual_button_body_times_out) auto
next
  assume "printed E [''Navigating to home...'', ''Uploading dummy image...'',
      ''Waiting for Analysis View...''] \<and>
    succeed E [Goto ''http://localhost:3000'', OpenWB dummy_path,
      FileWrite dummy_path dummy_png, SetInputFiles file_input dummy_path] \<and>
    raises E (WaitForSelector ''text=NEURAL SCAN'' (Some 5000)) = None \<and>
    (\<forall>d. appears E ''text=NEURAL SCAN'' = Some d \<longrightarrow> 5000 < d)"
  then show "verify_analysis_ui_body E (entered fs) =
        (Inl (TimeoutError 5000),
         \<lparr>files = fs(dummy_path \<mapsto> dummy_png),
          stdout = [''Navigating to home...'', ''Uploading dummy image...'',
            ''Waiting for Analysis View...''],
          calls = prologue @ [Goto ''http://localhost:3000'', OpenWB dummy_path,
            FileWrite dummy_path dummy_png, SetInputFiles file_input dummy_path,
            WaitForSelector ''text=NEURAL SCAN'' (Some 5000)],
          written = [dummy_path]\<rparr>)"
    by (intro verify_analysis_ui_body_times_out) auto
qed

theorem wait_steps_and_their_timeouts_witness:
  \<open>wait_args (calls (snd (run (verify_manual_button env_never) Map.empty))) =
     [(''text=Filament ID'', None)] \<and>
   wait_args (calls (snd (run (verify_analysis_ui env_never) Map.empty))) =
     [(''text=NEURAL SCAN'', Some 5000)] \<and>
   outcome env_never (WaitForSelector ''text=Filament ID'' None) = Some (TimeoutError 30000) \<and>
   outcome env_ok (WaitForSelector ''text=Filament ID'' None) = None \<and>
   fst (verify_manual_button_body env_never (entered Map.empty)) = Inl (TimeoutError 30000) \<and>
   fst (verify_analysis_ui_body env_never (entered Map.empty)) = Inl (TimeoutError 5000)\<close>
proof -
  have 1: "wait_args (calls (snd (run (verify_manual_button env_never) Map.empty))) =
     [(''text=Filament ID'', None)]"
    by (simp add: verify_manual_button_def verify_manual_button_try_def verify_manual_button_body_def
        verify_manual_button_handler_def exec envs)
  have 2: "wait_args (calls (snd (run (verify_analysis_ui env_never) Map.empty))) =
     [(''text=NEURAL SCAN'', Some 5000)]"
    by (simp add: verify_analysis_ui_def verify_analysis_ui_try_def verify_analysis_ui_body_def
        verify_analysis_ui_handler_def exec envs)
  show ?thesis
    using 1 2
      wait_steps_and_their_timeouts [of env_never Map.empty "''text=Filament ID''" None 0]
      wait_steps_and_their_timeouts [of env_ok Map.empty "''text=Filament ID''" None 200]
    by (simp add: envs)
qed

section \<open>The fixture is a PNG image of one pixel\<close>

lemma dummy_png_bytes:
  "dummy_png =
     [0x89, 0x50, 0x4E, 0x47, 0x0D, 0x0A, 0x1A, 0x0A,
      0x00, 0x00, 0x00, 0x0D, 0x49, 0x48, 0x44, 0x52,
      0x00, 0x00, 0x00, 0x01, 0x00, 0x00, 0x00, 0x01, 0x08, 0x06, 0x00, 0x00, 0x00,
      0x1F, 0x15, 0xC4, 0x89,
      0x00, 0x00, 0x00, 0x0A, 0x49, 0x44, 0x41, 0x54,
      0x78, 0x9C, 0x63, 0x00, 0x01, 0x00, 0x00, 0x05, 0x00, 0x01,
      0x0D, 0x0A, 0x2D, 0xB4,
      0x00, 0x00, 0x00, 0x00, 0x49, 0x45, 0x4E, 0x44,
      0xAE, 0x42, 0x60, 0x82]"
  by (simp add: dummy_png_def ascii_def)

lemma crc_IHDR: "crc32 [0x49, 0x48, 0x44, 0x52, 0, 0, 0, 1, 0, 0, 0, 1, 8, 6, 0, 0, 0] = 0x1F15C489"
  by (simp add: crc32_def crc_byte_def crc_shift_def)

lemma crc_IDAT: "crc32 [0x49, 0x44, 0x41, 0x54, 0x78, 0x9C, 0x63, 0, 1, 0, 0, 5, 0, 1] = 0x0D0A2DB4"
  by (simp add: crc32_def crc_byte_def crc_shift_def)

lemma crc_IEND: "crc32 [0x49, 0x45, 0x4E, 0x44] = 0xAE426082"
  by (simp add: crc32_def crc_byte_def crc_shift_def)

lemma copy_back_numeral:
  "copy_back (numeral k) dist out = copy_back (pred_numeral k) dist (out @ [out ! (length out - dist)])"
  by (simp add: numeral_eq_Suc)

lemma bits_IDAT: "bits_of [0x63, 0, 1, 0, 0, 5, 0, 1] =
  [True, True, False, False, False, True, True, False,
   False, False, False, False, False, False, False, False,
   True, False, False, False, False, False, False, False,
   False, False, False, False, False, False, False, False,
   False, False, False, False, False, False, False, False,
   True, False, True, False, False, False, False, False,
   False, False, False, False, False, False, False, False,
   True, False, False, False, False, False, False, False]"
  by (simp add: bits_of_def bits_of_byte_def)

lemma inflate_IDAT:
  "zlib_decompress [0x78, 0x9C, 0x63, 0, 1, 0, 0, 5, 0, 1] = Some [0, 0, 0, 0, 0]"
  by (simp add: zlib_decompress_def bits_IDAT be32_def adler32_def adler_step_def
      fixed_symbol_def back_reference_def msb_val_def lsb_val_def length_table_def dist_table_def
      Let_def copy_back_numeral)

lemma chunks_dummy_png:
  "chunks (length dummy_png) (drop 8 dummy_png) =
     Some [\<lparr>ctype = [0x49, 0x48, 0x44, 0x52], cdata = [0, 0, 0, 1, 0, 0, 0, 1, 8, 6, 0, 0, 0]\<rparr>,
           \<lparr>ctype = [0x49, 0x44, 0x41, 0x54], cdata = [0x78, 0x9C, 0x63, 0, 1, 0, 0, 5, 0, 1]\<rparr>,
           \<lparr>ctype = [0x49, 0x45, 0x4E, 0x44], cdata = []\<rparr>]"
  by (simp add: dummy_png_bytes be32_def crc_IHDR crc_IDAT crc_IEND Let_def)

text \<open>The check is not void: with one byte of the CRC of IHDR changed, the file is refused.\<close>

lemma corrupted_crc_rejected:
  "minimal_png (take 29 dummy_png @ [0] @ drop 30 dummy_png) = None"
proof -
  have sig: "take 8 (take 29 dummy_png @ [0] @ drop 30 dummy_png) = png_signature"
    by (simp add: dummy_png_bytes png_signature_def)
  have "chunks (length (take 29 dummy_png @ [0] @ drop 30 dummy_png))
          (drop 8 (take 29 dummy_png @ [0] @ drop 30 dummy_png)) = None"
    by (simp add: dummy_png_bytes be32_def crc_IHDR Let_def)
  then show ?thesis
    by (simp add: minimal_png_def sig)
qed

text \<open>
  Claim C8. The bytes literal written as the upload fixture is a minimal valid PNG file:
  signature, IHDR, one IDAT and IEND, each chunk with its correct CRC-32; the header is
  legal and declares width 1 and height 1 (8 bits per sample, colour type 6); the image
  data are a well-formed zlib stream that inflates to the one scanline of that image.
\<close>

theorem dummy_png_is_minimal_1x1_png:
  "minimal_png dummy_png =
     Some \<lparr>width = 1, height = 1, bit_depth = 8, colour_type = 6, compression = 0,
           filter_method = 0, interlace = 0\<rparr>"
proof -
  have sig: "take 8 dummy_png = png_signature"
    by (simp add: dummy_png_bytes png_signature_def)
  show ?thesis
    by (simp add: minimal_png_def sig chunks_dummy_png ascii_def parse_ihdr_def be32_def
        ihdr_ok_def depths_def inflate_IDAT scanline_bytes_def channels_def)
qed

end
